theory Spec2Isabelle
  imports Complex_Main
begin

section \<open>Python strings and slices\<close>

text \<open>
  A Python \<open>str\<close> is a sequence of Unicode code points and \<open>len\<close> counts code points,
  so a text is a list of code points (natural numbers). ASCII literals are written with
  \<open>cps\<close>.
\<close>

type_synonym pystr = "nat list"

definition cps :: "string \<Rightarrow> pystr" where
  "cps s = map of_char s"

text \<open>
  The characters that \<open>str.strip()\<close> removes and that \<open>\s\<close> matches in a \<open>str\<close> pattern:
  the code points for which the interpreter's \<open>Py_UNICODE_ISSPACE\<close> holds.
\<close>

definition is_space :: "nat \<Rightarrow> bool" where
  "is_space c \<longleftrightarrow>
     (9 \<le> c \<and> c \<le> 13) \<or> (28 \<le> c \<and> c \<le> 32) \<or> c = 133 \<or> c = 160 \<or> c = 5760 \<or>
     (8192 \<le> c \<and> c \<le> 8202) \<or> c = 8232 \<or> c = 8233 \<or> c = 8239 \<or> c = 8287 \<or> c = 12288"

text \<open>\<open>xs[i:j]\<close>: a negative bound counts from the end, and both bounds are clamped.\<close>

definition py_bound :: "nat \<Rightarrow> int \<Rightarrow> nat" where
  "py_bound n i = (if i < 0 then nat (max 0 (int n + i)) else min n (nat i))"

definition py_slice :: "'a list \<Rightarrow> int \<Rightarrow> int \<Rightarrow> 'a list" where
  "py_slice xs i j =
     (let lo = py_bound (length xs) i; hi = py_bound (length xs) j
      in take (hi - lo) (drop lo xs))"

definition strip :: "pystr \<Rightarrow> pystr" where
  "strip s = rev (dropWhile is_space (rev (dropWhile is_space s)))"

text \<open>\<open>needle in haystack\<close> for strings.\<close>

fun py_in :: "pystr \<Rightarrow> pystr \<Rightarrow> bool" where
  "py_in k [] = (k = [])"
| "py_in k (c # cs) = (take (length k) (c # cs) = k \<or> py_in k cs)"

section \<open>Text chunker (utils/text\_utils.py)\<close>

record TextChunker =
  chunk_size :: int
  overlap :: int

text \<open>The configuration of \<open>config.py\<close>: \<open>CHUNK_SIZE = 400\<close>, \<open>CHUNK_OVERLAP = 100\<close>.\<close>

definition default_chunker :: TextChunker where
  "default_chunker = \<lparr>chunk_size = 400, overlap = 100\<rparr>"

text \<open>
  The end of the leftmost match of a one-character class followed by \<open>\s+\<close> (greedy), as
  \<open>re.finditer\<close> yields it first: \<open>[.!?\<dots>]\s+\<close> and \<open>[,;]\s+\<close>.
\<close>

fun first_class_ws_end :: "(nat \<Rightarrow> bool) \<Rightarrow> pystr \<Rightarrow> nat option" where
  "first_class_ws_end P [] = None"
| "first_class_ws_end P [c] = None"
| "first_class_ws_end P (c # d # cs) =
     (if P c \<and> is_space d then Some (Suc (length (takeWhile is_space (d # cs))))
      else map_option Suc (first_class_ws_end P (d # cs)))"

text \<open>
  The sentence enders \<open>. ! ?\<close> and the danda and double danda (U+0964, U+0965); the
  clause separators \<open>, ;\<close>.
\<close>

definition sentence_ender :: "nat \<Rightarrow> bool" where
  "sentence_ender c \<longleftrightarrow> c = 46 \<or> c = 33 \<or> c = 63 \<or> c = 2404 \<or> c = 2405"

definition clause_sep :: "nat \<Rightarrow> bool" where
  "clause_sep c \<longleftrightarrow> c = 44 \<or> c = 59"

text \<open>
  The end of the leftmost match of \<open>\n\s*\n\<close>: after a newline the greedy \<open>\s*\<close> takes the
  whole run of white space and backtracks to the last newline of that run.
\<close>

definition after_last_newline :: "pystr \<Rightarrow> nat" where
  "after_last_newline run = length run - length (takeWhile (\<lambda>c. c \<noteq> 10) (rev run))"

fun paragraph_break_end :: "pystr \<Rightarrow> nat option" where
  "paragraph_break_end [] = None"
| "paragraph_break_end (c # cs) =
     (if c = 10 \<and> 10 \<in> set (takeWhile is_space cs)
      then Some (Suc (after_last_newline (takeWhile is_space cs)))
      else map_option Suc (paragraph_break_end cs))"

definition find_sentence_boundary :: "pystr \<Rightarrow> int \<Rightarrow> int \<Rightarrow> int" where
  "find_sentence_boundary text start end =
     (let s = py_slice text start end in
      case first_class_ws_end sentence_ender s of
        Some e \<Rightarrow> start + int e
      | None \<Rightarrow>
          (case paragraph_break_end s of
             Some e \<Rightarrow> start + int e
           | None \<Rightarrow>
               (case first_class_ws_end clause_sep s of
                  Some e \<Rightarrow> start + int e
                | None \<Rightarrow> end)))"

text \<open>One iteration of the \<open>while\<close> loop of \<open>chunk_text\<close>: the window's end, \<dots>\<close>

definition window_end :: "TextChunker \<Rightarrow> pystr \<Rightarrow> int \<Rightarrow> int" where
  "window_end self text start =
     (let end = start + chunk_size self in
      if end < int (length text) then
        (let sentence_end = find_sentence_boundary text (end - overlap self) end
         in if sentence_end > start then sentence_end else end)
      else end)"

text \<open>\<dots> the chunk list after the stripped chunk is appended when it is not empty, \<dots>\<close>

definition append_chunk :: "TextChunker \<Rightarrow> pystr \<Rightarrow> int \<Rightarrow> pystr list \<Rightarrow> pystr list" where
  "append_chunk self text start chunks =
     (let chunk = strip (py_slice text start (window_end self text start))
      in if chunk \<noteq> [] then chunks @ [chunk] else chunks)"

text \<open>\<dots> and the next start, \<open>max(start + 1, end - overlap)\<close>.\<close>

definition next_start :: "TextChunker \<Rightarrow> pystr \<Rightarrow> int \<Rightarrow> int" where
  "next_start self text start = max (start + 1) (window_end self text start - overlap self)"

text \<open>
  The \<open>while start < len(text)\<close> loop. Nothing in its shape bounds the number of
  iterations, so it is a partial function: \<open>None\<close> stands for a loop that never returns.
\<close>

partial_function (option) chunk_loop ::
  "TextChunker \<Rightarrow> pystr \<Rightarrow> int \<Rightarrow> pystr list \<Rightarrow> pystr list option" where
  "chunk_loop self text start chunks =
     (if start < int (length text) then
        (if next_start self text start \<ge> int (length text)
         then Some (append_chunk self text start chunks)
         else chunk_loop self text (next_start self text start)
                (append_chunk self text start chunks))
      else Some chunks)"

declare chunk_loop.simps [code]

definition chunk_text :: "TextChunker \<Rightarrow> pystr \<Rightarrow> pystr list option" where
  "chunk_text self text =
     (if text = [] \<or> int (length text) < chunk_size self
      then Some (if text \<noteq> [] then [text] else [])
      else chunk_loop self text 0 [])"

text \<open>
  Position \<open>i\<close> of the text lies inside a chunk: some chunk is the piece
  \<open>txt[j:k]\<close> of the text with \<open>j \<le> i < k\<close>.
\<close>

definition spans :: "pystr \<Rightarrow> nat \<Rightarrow> pystr list \<Rightarrow> bool" where
  "spans txt i chunks \<longleftrightarrow>
     (\<exists>c\<in>set chunks. \<exists>j k. c = take (k - j) (drop j txt) \<and> j \<le> i \<and> i < k \<and> k \<le> length txt)"

section \<open>Embedder (services/api\_client.py)\<close>

text \<open>The exceptions the modelled code can raise.\<close>

datatype py_error =
  ValueError | KeyError | AssertionError | ZeroDivisionError | UnicodeEncodeError |
  UnexpectedResponse

text \<open>
  \<open>text.encode()\<close>: the UTF-8 bytes of the text. A surrogate code point (U+D800 to
  U+DFFF), which a \<open>str\<close> can hold, cannot be encoded and raises.
\<close>

definition is_surrogate :: "nat \<Rightarrow> bool" where
  "is_surrogate c \<longleftrightarrow> 55296 \<le> c \<and> c \<le> 57343"

definition utf8 :: "nat \<Rightarrow> nat list" where
  "utf8 c =
     (if c < 128 then [c]
      else if c < 2048 then [192 + c div 64, 128 + c mod 64]
      else if c < 65536 then [224 + c div 4096, 128 + c div 64 mod 64, 128 + c mod 64]
      else [240 + c div 262144, 128 + c div 4096 mod 64, 128 + c div 64 mod 64, 128 + c mod 64])"

definition py_encode :: "pystr \<Rightarrow> py_error + nat list" where
  "py_encode s =
     (if list_ex is_surrogate s then Inl UnicodeEncodeError else Inr (concat (map utf8 s)))"

text \<open>
  \<open>int(hex_val, 16)\<close> on the one- or two-character pieces \<open>text_hash[i:i+2]\<close> of the
  digest. A piece that is not made of hexadecimal digits raises \<open>ValueError\<close>; the signs,
  blanks and underscores that \<open>int\<close> also accepts do not occur in a digest and are
  treated as invalid.
\<close>

definition hex_digit :: "nat \<Rightarrow> nat option" where
  "hex_digit c =
     (if 48 \<le> c \<and> c \<le> 57 then Some (c - 48)
      else if 97 \<le> c \<and> c \<le> 102 then Some (c - 87)
      else if 65 \<le> c \<and> c \<le> 70 then Some (c - 55)
      else None)"

fun hex_value :: "nat \<Rightarrow> pystr \<Rightarrow> nat option" where
  "hex_value acc [] = Some acc"
| "hex_value acc (c # cs) =
     (case hex_digit c of None \<Rightarrow> None | Some d \<Rightarrow> hex_value (16 * acc + d) cs)"

definition py_int16 :: "pystr \<Rightarrow> nat option" where
  "py_int16 s = (if s = [] then None else hex_value 0 s)"

text \<open>The pieces \<open>text_hash[i:i+2]\<close> for \<open>i\<close> in \<open>range(0, len(text_hash), 2)\<close>.\<close>

fun hex_pairs :: "pystr \<Rightarrow> pystr list" where
  "hex_pairs [] = []"
| "hex_pairs [a] = [[a]]"
| "hex_pairs (a # b # cs) = [a, b] # hex_pairs cs"

text \<open>
  The \<open>for\<close> loop that fills the embedding with \<open>int(hex_val, 16) / 255.0\<close>. The
  components are modelled as exact real numbers.
\<close>

fun pairs_to_floats :: "pystr list \<Rightarrow> py_error + real list" where
  "pairs_to_floats [] = Inr []"
| "pairs_to_floats (hex_val # rest) =
     (case py_int16 hex_val of
        None \<Rightarrow> Inl ValueError
      | Some v \<Rightarrow>
          (case pairs_to_floats rest of
             Inl e \<Rightarrow> Inl e
           | Inr vs \<Rightarrow> Inr (real v / 255 # vs)))"

text \<open>
  The padding loop \<open>while len(embedding) < 1024: embedding.extend(\<dots>)\<close>. On an empty
  embedding it extends by nothing and never ends, so it is a partial function.
\<close>

partial_function (option) pad_embedding :: "real list \<Rightarrow> real list option" where
  "pad_embedding embedding =
     (if length embedding < 1024
      then pad_embedding
             (embedding @ take (min (length embedding) (1024 - length embedding)) embedding)
      else Some embedding)"

declare pad_embedding.simps [code]

text \<open>
  \<open>_get_embedding_openrouter\<close>, the hash-based embedding. \<open>hashlib.md5(\<dots>).hexdigest()\<close>
  belongs to the standard library and is the parameter \<open>md5_hexdigest\<close>, from the encoded
  bytes to the digest in hexadecimal. The result is \<open>None\<close> when the padding loop does not
  return, \<open>Some (Inl e)\<close> when \<open>e\<close> is raised.
\<close>

definition get_embedding_openrouter :: "(nat list \<Rightarrow> pystr) \<Rightarrow> pystr \<Rightarrow> (py_error + real list) option" where
  "get_embedding_openrouter md5_hexdigest text =
     (case py_encode text of
        Inl e \<Rightarrow> Some (Inl e)
      | Inr bytes \<Rightarrow>
          (case pairs_to_floats (hex_pairs (md5_hexdigest bytes)) of
             Inl e \<Rightarrow> Some (Inl e)
           | Inr embedding \<Rightarrow> map_option (\<lambda>e. Inr (take 1024 e)) (pad_embedding embedding)))"

text \<open>
  \<open>get_embedding\<close>. The embedding service is the parameter \<open>api\<close>: the outcome of the
  request of each attempt, a rate-limit response (status 429), a reply holding an
  embedding, or a failure (any exception). When all attempts are used up the hash-based
  embedding is returned.
\<close>

datatype api_reply = RateLimited | Replied "real list" | Failed

fun mistral_attempts :: "(nat \<Rightarrow> api_reply) \<Rightarrow> nat \<Rightarrow> nat \<Rightarrow> real list option" where
  "mistral_attempts api attempt 0 = None"
| "mistral_attempts api attempt (Suc remaining) =
     (case api attempt of
        Replied embedding \<Rightarrow> Some embedding
      | RateLimited \<Rightarrow> mistral_attempts api (Suc attempt) remaining
      | Failed \<Rightarrow> mistral_attempts api (Suc attempt) remaining)"

definition get_embedding ::
  "(nat list \<Rightarrow> pystr) \<Rightarrow> (nat \<Rightarrow> api_reply) \<Rightarrow> pystr \<Rightarrow> bool \<Rightarrow> int \<Rightarrow> (py_error + real list) option" where
  "get_embedding md5_hexdigest api text use_api max_retries =
     (if \<not> use_api then get_embedding_openrouter md5_hexdigest text
      else
        (case mistral_attempts api 0 (nat max_retries) of
           Some embedding \<Rightarrow> Some (Inr embedding)
         | None \<Rightarrow> get_embedding_openrouter md5_hexdigest text))"

section \<open>Floating-point values\<close>

text \<open>
  The vectors and scores are IEEE floating-point numbers. They are modelled as exact real
  numbers together with the three special values that arithmetic can produce, so that a
  division by zero is a value of the model, as it is for NumPy, and not an unspecified
  real number. Rounding, overflow and underflow of the finite values are not modelled:
  the model agrees with the code where the float32 arithmetic is exact, as on the zero
  vector and on the unit vectors of the examples, and an embedding whose squared sum
  underflows or overflows in float32 lies outside it.
\<close>

datatype npfloat = Fin real | PInf | NInf | NaN

fun fneg :: "npfloat \<Rightarrow> npfloat" where
  "fneg (Fin x) = Fin (- x)"
| "fneg PInf = NInf"
| "fneg NInf = PInf"
| "fneg NaN = NaN"

fun fadd :: "npfloat \<Rightarrow> npfloat \<Rightarrow> npfloat" where
  "fadd (Fin x) (Fin y) = Fin (x + y)"
| "fadd NaN y = NaN"
| "fadd x NaN = NaN"
| "fadd PInf NInf = NaN"
| "fadd NInf PInf = NaN"
| "fadd (Fin x) y = y"
| "fadd x y = x"

fun fmul :: "npfloat \<Rightarrow> npfloat \<Rightarrow> npfloat" where
  "fmul (Fin x) (Fin y) = Fin (x * y)"
| "fmul NaN y = NaN"
| "fmul x NaN = NaN"
| "fmul (Fin x) y = (if x = 0 then NaN else if 0 < x then y else fneg y)"
| "fmul x (Fin y) = (if y = 0 then NaN else if 0 < y then x else fneg x)"
| "fmul PInf y = y"
| "fmul NInf y = fneg y"

text \<open>The comparison \<open>x > y\<close>, false when either side is not a number.\<close>

fun fgt :: "npfloat \<Rightarrow> npfloat \<Rightarrow> bool" where
  "fgt (Fin x) (Fin y) = (y < x)"
| "fgt NaN y = False"
| "fgt x NaN = False"
| "fgt x PInf = False"
| "fgt PInf y = True"
| "fgt NInf y = False"
| "fgt x NInf = True"

text \<open>
  NumPy's \<open>x / y\<close> on finite operands: a zero divisor gives \<open>nan\<close> for \<open>0 / 0\<close> and an
  infinity otherwise, with a warning and no exception.
\<close>

definition np_divide :: "real \<Rightarrow> real \<Rightarrow> npfloat" where
  "np_divide x y =
     (if y \<noteq> 0 then Fin (x / y) else if x = 0 then NaN else if 0 < x then PInf else NInf)"

text \<open>\<open>np.linalg.norm\<close> of a vector, and \<open>embedding / np.linalg.norm(embedding)\<close>.\<close>

definition np_norm :: "real list \<Rightarrow> real" where
  "np_norm v = sqrt (sum_list (map (\<lambda>x. x * x) v))"

definition normalize :: "real list \<Rightarrow> npfloat list" where
  "normalize v = map (\<lambda>x. np_divide x (np_norm v)) v"

text \<open>
  Python's \<open>x / n\<close> for a float \<open>x\<close> and an integer \<open>n\<close>, which raises on \<open>n = 0\<close>.
\<close>

definition py_truediv :: "npfloat \<Rightarrow> nat \<Rightarrow> py_error + npfloat" where
  "py_truediv x n =
     (if n = 0 then Inl ZeroDivisionError
      else Inr (case x of Fin r \<Rightarrow> Fin (r / real n) | y \<Rightarrow> y))"

section \<open>Documents and payloads\<close>

text \<open>
  A document is a dictionary; each key the code reads may be missing. The stored
  payload has all eight keys. The \<open>metadata\<close> mapping is modelled with string values.
\<close>

record document =
  doc_embedding :: "real list option"
  doc_text :: "pystr option"
  doc_source :: "pystr option"
  doc_chapter :: "pystr option"
  doc_verse :: "pystr option"
  doc_sanskrit :: "pystr option"
  doc_translation :: "pystr option"
  doc_explanation :: "pystr option"
  doc_metadata :: "(pystr \<times> pystr) list option"

record payload =
  p_text :: pystr
  p_source :: pystr
  p_chapter :: pystr
  p_verse :: pystr
  p_sanskrit :: pystr
  p_translation :: pystr
  p_explanation :: pystr
  p_metadata :: "(pystr \<times> pystr) list"

record search_result = payload +
  score :: npfloat

text \<open>\<open>d.get(key, default)\<close>.\<close>

definition get_or :: "'a option \<Rightarrow> 'a \<Rightarrow> 'a" where
  "get_or v dflt = (case v of None \<Rightarrow> dflt | Some x \<Rightarrow> x)"

definition metadata_entry :: "document \<Rightarrow> payload" where
  "metadata_entry doc =
     \<lparr>p_text = get_or (doc_text doc) [], p_source = get_or (doc_source doc) [],
      p_chapter = get_or (doc_chapter doc) [], p_verse = get_or (doc_verse doc) [],
      p_sanskrit = get_or (doc_sanskrit doc) [], p_translation = get_or (doc_translation doc) [],
      p_explanation = get_or (doc_explanation doc) [], p_metadata = get_or (doc_metadata doc) []\<rparr>"

definition make_result :: "payload \<Rightarrow> npfloat \<Rightarrow> search_result" where
  "make_result m s = payload.extend m \<lparr>score = s\<rparr>"

text \<open>\<open>if source_filter and metadata.get("source", "") != source_filter\<close>.\<close>

definition filtered_out :: "pystr option \<Rightarrow> payload \<Rightarrow> bool" where
  "filtered_out source_filter m =
     (case source_filter of
        None \<Rightarrow> False
      | Some f \<Rightarrow> f \<noteq> [] \<and> p_source m \<noteq> f)"

section \<open>Local vector store (services/faiss\_vector\_store.py)\<close>

text \<open>
  The FAISS library's \<open>IndexFlatIP\<close>: the dimension \<open>d\<close> and the stored rows, in order
  (\<open>ntotal\<close> is their number). \<open>add\<close> appends rows and asserts their dimension.
  \<open>search\<close> asserts the dimension of the query and \<open>k > 0\<close>, and returns the \<open>k\<close> rows
  with the largest inner products, best first, each with its row number. FAISS does
  not fix the order of rows of equal score, and it never ranks a product that is not a
  number (it fills the result with the label -1 instead); in the model a row that does
  not compare as larger comes after the earlier rows, and every label is a row number.
  The statements below search an index of one row with a finite score, where the model
  and FAISS agree.
\<close>

record IndexFlatIP =
  index_d :: nat
  index_xb :: "npfloat list list"

definition index_add :: "IndexFlatIP \<Rightarrow> npfloat list list \<Rightarrow> py_error + IndexFlatIP" where
  "index_add idx x =
     (if list_all (\<lambda>row. length row = index_d idx) x
      then Inr (idx\<lparr>index_xb := index_xb idx @ x\<rparr>)
      else Inl AssertionError)"

definition inner_product :: "npfloat list \<Rightarrow> npfloat list \<Rightarrow> npfloat" where
  "inner_product x y = foldl fadd (Fin 0) (map2 fmul x y)"

fun insert_hit :: "npfloat \<times> nat \<Rightarrow> (npfloat \<times> nat) list \<Rightarrow> (npfloat \<times> nat) list" where
  "insert_hit h [] = [h]"
| "insert_hit h (g # gs) = (if fgt (fst h) (fst g) then h # g # gs else g # insert_hit h gs)"

definition ranked :: "npfloat list \<Rightarrow> (npfloat \<times> nat) list" where
  "ranked scores = foldl (\<lambda>acc h. insert_hit h acc) [] (zip scores [0..<length scores])"

definition index_search :: "IndexFlatIP \<Rightarrow> npfloat list \<Rightarrow> int \<Rightarrow> py_error + (npfloat \<times> nat) list" where
  "index_search idx x k =
     (if length x \<noteq> index_d idx \<or> k \<le> 0 then Inl AssertionError
      else Inr (take (nat k) (ranked (map (inner_product x) (index_xb idx)))))"

text \<open>
  \<open>np.array(embeddings, dtype=np.float32)\<close> on the list of rows raises when the rows do not
  all have the same length.
\<close>

definition np_array :: "npfloat list list \<Rightarrow> py_error + npfloat list list" where
  "np_array rows =
     (if list_all (\<lambda>row. length row = length (hd rows)) rows then Inr rows else Inl ValueError)"

text \<open>
  The store: the index and the parallel list of payloads. The two files that
  \<open>_save_index\<close> writes after each change are not modelled; a failure to write them is
  logged by the code and changes nothing else.
\<close>

record FaissVectorStore =
  embedding_dim :: nat
  index :: IndexFlatIP
  metadata :: "payload list"

definition FaissVectorStore_init :: "nat \<Rightarrow> FaissVectorStore" where
  "FaissVectorStore_init n =
     \<lparr>embedding_dim = n, index = \<lparr>index_d = n, index_xb = []\<rparr>, metadata = []\<rparr>"

text \<open>
  The \<open>for\<close> loop of \<open>add_documents\<close>: a document without an embedding is skipped, the
  others give a normalised embedding and a payload.
\<close>

fun normalized_batch :: "document list \<Rightarrow> (npfloat list \<times> payload) list" where
  "normalized_batch [] = []"
| "normalized_batch (doc # docs) =
     (case doc_embedding doc of
        None \<Rightarrow> normalized_batch docs
      | Some embedding \<Rightarrow> (normalize embedding, metadata_entry doc) # normalized_batch docs)"

definition FaissVectorStore_add_documents ::
  "FaissVectorStore \<Rightarrow> document list \<Rightarrow> py_error + FaissVectorStore" where
  "FaissVectorStore_add_documents self documents =
     (let embeddings = map fst (normalized_batch documents);
          metadata_batch = map snd (normalized_batch documents)
      in if embeddings \<noteq> [] then
           (case np_array embeddings of
              Inl e \<Rightarrow> Inl e
            | Inr embeddings_array \<Rightarrow>
                (case index_add (index self) embeddings_array of
                   Inl e \<Rightarrow> Inl e
                 | Inr idx \<Rightarrow> Inr (self\<lparr>index := idx, metadata := metadata self @ metadata_batch\<rparr>)))
         else Inr self)"

text \<open>The \<open>for\<close> loop of \<open>search\<close> over the scores and row numbers that FAISS returned.\<close>

fun collect_results ::
  "payload list \<Rightarrow> int \<Rightarrow> pystr option \<Rightarrow> (npfloat \<times> nat) list \<Rightarrow> search_result list \<Rightarrow>
   search_result list" where
  "collect_results md limit source_filter [] results = results"
| "collect_results md limit source_filter ((s, idx) # hits) results =
     (if idx < length md then
        (if filtered_out source_filter (md ! idx)
         then collect_results md limit source_filter hits results
         else if int (length (results @ [make_result (md ! idx) s])) \<ge> limit
              then results @ [make_result (md ! idx) s]
              else collect_results md limit source_filter hits
                     (results @ [make_result (md ! idx) s]))
      else collect_results md limit source_filter hits results)"

text \<open>\<open>search\<close>: any exception is logged and the empty list returned.\<close>

definition FaissVectorStore_search ::
  "FaissVectorStore \<Rightarrow> real list \<Rightarrow> int \<Rightarrow> pystr option \<Rightarrow> search_result list" where
  "FaissVectorStore_search self query_embedding limit source_filter =
     (if length (index_xb (index self)) = 0 then []
      else
        (case index_search (index self) (normalize query_embedding)
                (min (limit * 2) (int (length (index_xb (index self))))) of
           Inl e \<Rightarrow> []
         | Inr hits \<Rightarrow> collect_results (metadata self) limit source_filter hits []))"

definition FaissVectorStore_clear_collection :: "FaissVectorStore \<Rightarrow> FaissVectorStore" where
  "FaissVectorStore_clear_collection self =
     self\<lparr>index := \<lparr>index_d = embedding_dim self, index_xb = []\<rparr>, metadata := []\<rparr>"

section \<open>Managed vector store (services/vector\_store.py)\<close>

text \<open>
  The collection lives in the Qdrant service. Its content is modelled as the list of its
  points. From the client's contract: \<open>upsert\<close> stores each point of the batch under its
  id, overwriting the point that has this id already, and the collection, created with
  \<open>size=1024\<close>, rejects a vector of another dimension. Failures of the network are not
  modelled.
\<close>

record PointStruct =
  point_id :: nat
  point_vector :: "real list"
  point_payload :: payload

record VectorStore =
  is_available :: bool
  collection :: "PointStruct list"

fun upsert_point :: "PointStruct \<Rightarrow> PointStruct list \<Rightarrow> PointStruct list" where
  "upsert_point p [] = [p]"
| "upsert_point p (q # qs) =
     (if point_id q = point_id p then p # qs else q # upsert_point p qs)"

definition client_upsert :: "PointStruct list \<Rightarrow> PointStruct list \<Rightarrow> py_error + PointStruct list" where
  "client_upsert coll batch =
     (if list_all (\<lambda>p. length (point_vector p) = 1024) batch
      then Inr (foldl (\<lambda>c p. upsert_point p c) coll batch)
      else Inl UnexpectedResponse)"

text \<open>
  The points of \<open>add_documents\<close>: point \<open>i\<close> of the call is document \<open>i\<close> of the call
  (\<open>enumerate\<close>), with the embedding as it is given. \<open>doc["embedding"]\<close> and \<open>doc["text"]\<close>
  raise \<open>KeyError\<close> on a missing key.
\<close>

fun build_points :: "nat \<Rightarrow> document list \<Rightarrow> py_error + PointStruct list" where
  "build_points i [] = Inr []"
| "build_points i (doc # docs) =
     (case doc_embedding doc of
        None \<Rightarrow> Inl KeyError
      | Some v \<Rightarrow>
          (case doc_text doc of
             None \<Rightarrow> Inl KeyError
           | Some t \<Rightarrow>
               (case build_points (Suc i) docs of
                  Inl e \<Rightarrow> Inl e
                | Inr ps \<Rightarrow>
                    Inr (\<lparr>point_id = i, point_vector = v,
                          point_payload = (metadata_entry doc)\<lparr>p_text := t\<rparr>\<rparr> # ps))))"

text \<open>The slices \<open>points[i:i + batch_size]\<close> for \<open>i\<close> in \<open>range(0, len(points), batch_size)\<close>.\<close>

function batches :: "nat \<Rightarrow> 'a list \<Rightarrow> 'a list list" where
  "batches batch_size xs =
     (if xs = [] \<or> batch_size = 0 then [] else take batch_size xs # batches batch_size (drop batch_size xs))"
  by pat_completeness auto
termination
  by (relation "measure (\<lambda>(batch_size, xs). length xs)") auto

declare batches.simps [simp del]

text \<open>
  The upload loop: a batch that the service rejects raises, and the batches uploaded
  before it stay in the collection.
\<close>

fun upload_batches :: "PointStruct list \<Rightarrow> PointStruct list list \<Rightarrow> PointStruct list \<times> py_error option" where
  "upload_batches coll [] = (coll, None)"
| "upload_batches coll (batch # rest) =
     (case client_upsert coll batch of
        Inl e \<Rightarrow> (coll, Some e)
      | Inr coll' \<Rightarrow> upload_batches coll' rest)"

text \<open>\<open>add_documents\<close> returns the store and the exception it raises, if any.\<close>

definition VectorStore_add_documents ::
  "VectorStore \<Rightarrow> document list \<Rightarrow> VectorStore \<times> py_error option" where
  "VectorStore_add_documents self documents =
     (if \<not> is_available self then (self, None)
      else
        (case build_points 0 documents of
           Inl e \<Rightarrow> (self, Some e)
         | Inr points \<Rightarrow>
             (case upload_batches (collection self) (batches 100 points) of
                (coll, err) \<Rightarrow> (self\<lparr>collection := coll\<rparr>, err))))"

text \<open>\<open>SIMILARITY_THRESHOLD = 0.65\<close> of \<open>config.py\<close>.\<close>

definition SIMILARITY_THRESHOLD :: real where
  "SIMILARITY_THRESHOLD = 65 / 100"

text \<open>
  \<open>search\<close>. The search itself runs in the service and is the parameter
  \<open>client_search\<close>, called with the collection, the query vector, the limit, the source
  to match, if any, and the score threshold; it answers with scored payloads or raises.
\<close>

record ScoredPoint =
  hit_payload :: payload
  hit_score :: npfloat

type_synonym qdrant_search =
  "PointStruct list \<Rightarrow> real list \<Rightarrow> int \<Rightarrow> pystr option \<Rightarrow> real \<Rightarrow> py_error + ScoredPoint list"

definition VectorStore_search ::
  "qdrant_search \<Rightarrow> VectorStore \<Rightarrow> real list \<Rightarrow> int \<Rightarrow> pystr option \<Rightarrow> search_result list" where
  "VectorStore_search client_search self query_embedding limit source_filter =
     (if \<not> is_available self then []
      else
        (let search_filter =
               (case source_filter of
                  None \<Rightarrow> None
                | Some f \<Rightarrow> if f \<noteq> [] then Some f else None)
         in case client_search (collection self) query_embedding limit search_filter
                   SIMILARITY_THRESHOLD of
              Inl e \<Rightarrow> []
            | Inr search_result \<Rightarrow>
                map (\<lambda>hit. make_result (hit_payload hit) (hit_score hit)) search_result))"

definition VectorStore_clear_collection :: "VectorStore \<Rightarrow> VectorStore" where
  "VectorStore_clear_collection self =
     (if \<not> is_available self then self else self\<lparr>collection := []\<rparr>)"

section \<open>Retrieval orchestrator (services/rag\_service.py)\<close>

text \<open>
  What the orchestrator calls outside the repository is a parameter: \<open>str.lower\<close> (the
  interpreter's Unicode case mapping), the MD5 digest, the embedding service, the search
  of the Qdrant service and the chat completion of OpenRouter, which answers with a text
  or fails.
\<close>

record externals =
  ext_lower :: "pystr \<Rightarrow> pystr"
  ext_md5 :: "nat list \<Rightarrow> pystr"
  ext_mistral :: "nat \<Rightarrow> api_reply"
  ext_qdrant_search :: qdrant_search
  ext_openrouter :: "pystr \<Rightarrow> pystr \<Rightarrow> pystr option"

text \<open>
  An instance of \<open>str.lower\<close> for running examples; it agrees with \<open>str.lower\<close> on ASCII
  text.
\<close>

definition ascii_lower :: "pystr \<Rightarrow> pystr" where
  "ascii_lower s = map (\<lambda>c. if 65 \<le> c \<and> c \<le> 90 then c + 32 else c) s"

text \<open>
  \<open>self.vector_store\<close> is the Qdrant store when it is available and the FAISS store
  otherwise.
\<close>

datatype vector_store = Qdrant VectorStore | Faiss FaissVectorStore

fun vector_store_search ::
  "externals \<Rightarrow> vector_store \<Rightarrow> real list \<Rightarrow> int \<Rightarrow> pystr option \<Rightarrow> search_result list" where
  "vector_store_search ext (Qdrant vs) q limit source_filter =
     VectorStore_search (ext_qdrant_search ext) vs q limit source_filter"
| "vector_store_search ext (Faiss vs) q limit source_filter =
     FaissVectorStore_search vs q limit source_filter"

subsection \<open>The relevance gate\<close>

definition hindu_keywords :: "pystr list" where
  "hindu_keywords = map cps
     [''krishna'', ''rama'', ''ram'', ''sita'', ''hanuman'', ''arjuna'', ''dharma'', ''karma'',
      ''yoga'', ''meditation'',
      ''bhagavad'', ''gita'', ''ramayana'', ''mahabharata'', ''vedas'', ''upanishads'',
      ''sanskrit'',
      ''moksha'', ''nirvana'', ''hindu'', ''hinduism'', ''spiritual'', ''soul'', ''atman'',
      ''brahman'',
      ''vishnu'', ''shiva'', ''ganesha'', ''devi'', ''goddess'', ''god'', ''divine'', ''sacred'',
      ''holy'',
      ''temple'', ''prayer'', ''mantra'', ''om'', ''aum'', ''patanjali'', ''sage'', ''guru'',
      ''ashram'',
      ''verse'', ''chapter'', ''shloka'', ''sutra'', ''philosophy'', ''truth'', ''consciousness'',
      ''devotion'', ''worship'', ''faith'', ''righteous'', ''sin'', ''virtue'', ''ethics'', ''duty'',
      ''life'', ''death'', ''rebirth'', ''purpose'', ''peace'', ''happiness'', ''suffering'',
      ''wisdom'',
      ''dasharatha'', ''pita'', ''mata'', ''father'', ''mother'', ''son'', ''daughter'', ''brother'',
      ''sister'',
      ''wife'', ''husband'', ''bharat'', ''lakshmana'', ''shatrughna'', ''kaikeyi'', ''kausalya'',
      ''sumitra'',
      ''ravana'', ''lakshman'', ''bharata'', ''mandodari'', ''surpanakha'', ''kumbhakarna'',
      ''vibhishana'',
      ''pandava'', ''kaurava'', ''draupadi'', ''yudhishthira'', ''bhima'', ''nakula'', ''sahadeva'',
      ''duryodhana'', ''dushasana'', ''shakuni'', ''gandhari'', ''kunti'', ''madri'', ''pandu'',
      ''dhritarashtra'']"

definition modern_keywords :: "pystr list" where
  "modern_keywords = map cps
     [''salman khan'', ''akshay kumar'', ''shah rukh khan'', ''bollywood'', ''actor'', ''actress'',
      ''movie'', ''film'',
      ''cricket'', ''politics'', ''politician'', ''president'', ''prime minister'', ''covid'',
      ''coronavirus'',
      ''technology'', ''computer'', ''internet'', ''facebook'', ''instagram'', ''whatsapp'',
      ''twitter'',
      ''stock market'', ''cryptocurrency'', ''bitcoin'', ''business'', ''company'', ''startup'',
      ''sports'', ''football'', ''tennis'', ''olympics'', ''ipl'', ''match'', ''score'']"

definition hindi_patterns :: "pystr list" where
  "hindi_patterns = map cps
     [''kya naam'', ''kaun'', ''kahan'', ''kaise'', ''kyun'', ''kya'', ''ki'', ''ka'', ''ke'',
      ''naam tha'', ''naam hai'', ''kon tha'', ''kon hai'', ''kahan tha'', ''kahan hai'']"

definition spiritual_patterns :: "pystr list" where
  "spiritual_patterns = map cps
     [''what is'', ''how to'', ''meaning'', ''significance'', ''teaching'', ''purpose of'',
      ''why do'', ''how can'', ''what does'', ''tell me about'', ''explain'', ''describe'',
      ''who is'', ''who was'', ''where is'', ''where was'', ''when did'']"

text \<open>\<open>any(keyword in question_lower for keyword in keywords)\<close>.\<close>

definition any_in :: "pystr list \<Rightarrow> pystr \<Rightarrow> bool" where
  "any_in keywords s = list_ex (\<lambda>keyword. py_in keyword s) keywords"

definition is_hindu_text_related :: "(pystr \<Rightarrow> pystr) \<Rightarrow> pystr \<Rightarrow> bool" where
  "is_hindu_text_related lower question =
     (let question_lower = lower question;
          has_hindu_keywords = any_in hindu_keywords question_lower;
          has_modern_keywords = any_in modern_keywords question_lower
      in if has_modern_keywords then False
         else
           (let has_hindi_patterns = any_in hindi_patterns question_lower;
                has_spiritual_patterns = any_in spiritual_patterns question_lower
            in has_hindu_keywords \<or>
               (has_hindi_patterns \<and> length (strip question) > 5) \<or>
               (has_spiritual_patterns \<and> length (strip question) > 10)))"

subsection \<open>Query normalisation (utils/text\_utils.py)\<close>

text \<open>\<open>re.sub(r'\s+', ' ', query)\<close>: every maximal run of white space becomes one blank.\<close>

function collapse_ws :: "pystr \<Rightarrow> pystr" where
  "collapse_ws [] = []"
| "collapse_ws (c # cs) =
     (if is_space c then 32 # collapse_ws (dropWhile is_space cs) else c # collapse_ws cs)"
  by pat_completeness auto
termination
  by (relation "measure length") (auto simp: length_dropWhile_le less_Suc_eq_le)

definition normalize_query :: "(pystr \<Rightarrow> pystr) \<Rightarrow> pystr \<Rightarrow> pystr" where
  "normalize_query lower query =
     (if query = [] then query else collapse_ws (strip (lower query)))"

subsection \<open>Context and answer\<close>

fun py_join :: "pystr \<Rightarrow> pystr list \<Rightarrow> pystr" where
  "py_join sep [] = []"
| "py_join sep [p] = p"
| "py_join sep (p # q # ps) = p @ sep @ py_join sep (q # ps)"

definition format_context_entry :: "search_result \<Rightarrow> pystr" where
  "format_context_entry result =
     py_join [10]
       ((if p_chapter result \<noteq> [] \<and> p_verse result \<noteq> []
         then [cps ''Source: '' @ p_source result @ cps '' - Chapter '' @ p_chapter result @
               cps '', Verse '' @ p_verse result]
         else [cps ''Source: '' @ p_source result]) @
        (if p_sanskrit result \<noteq> [] then [cps ''Sanskrit: '' @ p_sanskrit result] else []) @
        (if p_translation result \<noteq> [] then [cps ''Translation: '' @ p_translation result] else []) @
        (if p_explanation result \<noteq> [] then [cps ''Commentary: '' @ p_explanation result] else []) @
        [cps ''Text: '' @ p_text result])"

text \<open>\<open>generate_answer\<close> of the API client: a failure of the service gives a fixed message.\<close>

definition service_unavailable :: pystr where
  "service_unavailable =
     cps ''I'' @ [39] @ cps ''m unable to generate an answer right now because the AI service is temporarily unavailable. Please try again in a few moments, or check if there are relevant verses in the database that might help with your question.''"

definition generate_answer :: "(pystr \<Rightarrow> pystr \<Rightarrow> pystr option) \<Rightarrow> pystr \<Rightarrow> pystr \<Rightarrow> pystr" where
  "generate_answer openrouter question context =
     (case openrouter question context of Some a \<Rightarrow> a | None \<Rightarrow> service_unavailable)"

subsection \<open>\<open>search_and_answer\<close>\<close>

text \<open>
  The response dictionary; \<open>context_used\<close> and \<open>error\<close> are absent from some responses.
  The text of an exception is not modelled, the exception stands for it.
\<close>

record rag_answer =
  answer :: pystr
  confidence :: npfloat
  context_used :: "nat option"
  error :: "py_error option"

definition off_topic_answer :: rag_answer where
  "off_topic_answer =
     \<lparr>answer = cps ''I can only answer questions about Hindu religious texts including the Bhagavad Gita, Ramayana, Mahabharata, and Yoga Sutras. Please ask questions related to these sacred texts, their teachings, characters, or philosophical concepts.'',
      confidence = Fin 0, context_used = None, error = None\<rparr>"

definition nothing_found_answer :: rag_answer where
  "nothing_found_answer =
     \<lparr>answer = cps ''Based on the available texts, I cannot find relevant information to answer this question. Please try rephrasing your question or asking about specific verses or concepts from the Bhagavad Gita or Yoga Sutras.'',
      confidence = Fin 0, context_used = None, error = None\<rparr>"

definition failure_answer :: "py_error \<Rightarrow> rag_answer" where
  "failure_answer e =
     \<lparr>answer = cps ''I encountered an issue while searching for your answer. This might be due to a temporary service interruption. Please try rephrasing your question or try again in a moment.'',
      confidence = Fin 0, context_used = None, error = Some e\<rparr>"

text \<open>\<open>sum(result["score"] for result in \<dots>)\<close>, which starts from \<open>0\<close>.\<close>

definition py_sum :: "npfloat list \<Rightarrow> npfloat" where
  "py_sum xs = foldl fadd (Fin 0) xs"

text \<open>
  \<open>search_and_answer\<close>. The embedding of the question is requested with the default
  \<open>use_api=False\<close> and \<open>max_retries=3\<close>. The result is \<open>None\<close> only when the embedder does
  not return; an exception raised inside gives the failure response.
\<close>

definition search_and_answer ::
  "externals \<Rightarrow> vector_store \<Rightarrow> pystr \<Rightarrow> pystr option \<Rightarrow> rag_answer option" where
  "search_and_answer ext vs question source_filter =
     (if \<not> is_hindu_text_related (ext_lower ext) question then Some off_topic_answer
      else
        (case get_embedding (ext_md5 ext) (ext_mistral ext)
                (normalize_query (ext_lower ext) question) False 3 of
           None \<Rightarrow> None
         | Some (Inl e) \<Rightarrow> Some (failure_answer e)
         | Some (Inr question_embedding) \<Rightarrow>
             (let search_results = vector_store_search ext vs question_embedding 20 source_filter
              in if search_results = [] then Some nothing_found_answer
                 else
                   (let context_parts = map format_context_entry (take 5 search_results);
                        context = py_join [10, 10, 45, 45, 45, 10, 10] context_parts;
                        generated = generate_answer (ext_openrouter ext) question context
                    in case py_truediv (py_sum (map score (take 5 search_results)))
                              (length (take 5 search_results)) of
                         Inl e \<Rightarrow> Some (failure_answer e)
                       | Inr avg_confidence \<Rightarrow>
                           Some \<lparr>answer = generated, confidence = avg_confidence,
                                 context_used = Some (length context_parts), error = None\<rparr>))))"

text \<open>Whether a confidence is a number of the interval from 0 to 1.\<close>

fun in_unit_interval :: "npfloat \<Rightarrow> bool" where
  "in_unit_interval (Fin x) = (0 \<le> x \<and> x \<le> 1)"
| "in_unit_interval _ = False"

section \<open>Example data\<close>

text \<open>A document with an embedding and a text, and no other key.\<close>

definition doc_with :: "real list \<Rightarrow> pystr \<Rightarrow> document" where
  "doc_with e t =
     \<lparr>doc_embedding = Some e, doc_text = Some t, doc_source = None, doc_chapter = None,
      doc_verse = None, doc_sanskrit = None, doc_translation = None, doc_explanation = None,
      doc_metadata = None\<rparr>"

text \<open>The payload stored for such a document.\<close>

definition payload_with :: "pystr \<Rightarrow> payload" where
  "payload_with t =
     \<lparr>p_text = t, p_source = [], p_chapter = [], p_verse = [], p_sanskrit = [],
      p_translation = [], p_explanation = [], p_metadata = []\<rparr>"

text \<open>
  Externals for running examples: ASCII lower-casing, the MD5 digests of the bytes of
  \<open>what is dharma?\<close> and (for every other input) of no bytes, an embedding
  service and a Qdrant service that fail, and a chat completion that fails.
\<close>

definition test_ext :: externals where
  "test_ext =
     \<lparr>ext_lower = ascii_lower,
      ext_md5 = (\<lambda>t. if t = cps ''what is dharma?'' then cps ''e045766d908d019be70ca58c99332982''
                       else cps ''d41d8cd98f00b204e9800998ecf8427e''),
      ext_mistral = (\<lambda>attempt. Failed),
      ext_qdrant_search = (\<lambda>coll q limit f threshold. Inl UnexpectedResponse),
      ext_openrouter = (\<lambda>question context. None)\<rparr>"

text \<open>A local store of dimension 1024 that holds one row.\<close>

definition single_row_store :: "npfloat list \<Rightarrow> pystr \<Rightarrow> FaissVectorStore" where
  "single_row_store row t =
     \<lparr>embedding_dim = 1024, index = \<lparr>index_d = 1024, index_xb = [row]\<rparr>,
      metadata = [payload_with t]\<rparr>"

section \<open>Verification: text chunker\<close>

lemmas chunk_eval =
  window_end_def find_sentence_boundary_def py_slice_def py_bound_def is_space_def
  sentence_ender_def clause_sep_def append_chunk_def strip_def next_start_def Let_def

lemma next_start_gt: "start < next_start self text start"
  by (simp add: next_start_def)

lemma chunk_loop_returns: "\<exists>r. chunk_loop self text start chunks = Some r"
proof (induction "nat (int (length text) - start)" arbitrary: start chunks rule: less_induct)
  case less
  show ?case
  proof (cases "start < int (length text) \<and> next_start self text start < int (length text)")
    case True
    then have "nat (int (length text) - next_start self text start) < nat (int (length text) - start)"
      using next_start_gt [of start self "text"] by linarith
    from less.hyps [OF this] obtain r where
      "chunk_loop self text (next_start self text start) (append_chunk self text start chunks) = Some r"
      by blast
    with True show ?thesis
      by (subst chunk_loop.simps) simp
  next
    case False
    then show ?thesis
      by (subst chunk_loop.simps) auto
  qed
qed

lemma chunk_loop_stop:
  "\<not> start < int (length text) \<Longrightarrow> chunk_loop self text start chunks = Some chunks"
  by (subst chunk_loop.simps) simp

lemma chunk_loop_last:
  "start < int (length text) \<Longrightarrow> int (length text) \<le> next_start self text start \<Longrightarrow>
   chunk_loop self text start chunks = Some (append_chunk self text start chunks)"
  by (subst chunk_loop.simps) simp

lemma chunk_loop_step:
  "start < int (length text) \<Longrightarrow> next_start self text start < int (length text) \<Longrightarrow>
   chunk_loop self text start chunks =
     chunk_loop self text (next_start self text start) (append_chunk self text start chunks)"
  by (subst chunk_loop.simps) simp

lemma strip_covers:
  assumes "p < length s" and "\<not> is_space (s ! p)"
  shows "\<exists>a m. strip s = take m (drop a s) \<and> a \<le> p \<and> p < a + m \<and> a + m \<le> length s"
proof -
  define a where "a = length (takeWhile is_space s)"
  define t where "t = drop a s"
  define n where "n = length (takeWhile is_space (rev t))"
  define m where "m = length t - n"
  have dw: "dropWhile is_space s = t"
    unfolding t_def a_def by (rule dropWhile_eq_drop)
  have "dropWhile is_space (rev t) = drop n (rev t)"
    unfolding n_def by (rule dropWhile_eq_drop)
  then have st: "strip s = take m t"
    by (simp add: strip_def dw m_def rev_drop)
  have a_le: "a \<le> p"
  proof (rule ccontr)
    assume "\<not> a \<le> p"
    then have "p < a" by simp
    then have "s ! p \<in> set (takeWhile is_space s)"
      unfolding a_def by (metis nth_mem takeWhile_nth)
    then show False using assms(2) by (auto dest: set_takeWhileD)
  qed
  have a_len: "a \<le> length s"
    unfolding a_def by (rule length_takeWhile_le)
  have lt: "length t = length s - a" by (simp add: t_def)
  have n_le: "n \<le> length t"
    unfolding n_def using length_takeWhile_le [of is_space "rev t"] by simp
  have tp: "t ! (p - a) = s ! p"
    using a_le assms(1) by (simp add: t_def)
  have p_lt: "p - a < m"
  proof (rule ccontr)
    assume "\<not> p - a < m"
    then have ge: "m \<le> p - a" by simp
    define q where "q = length t - Suc (p - a)"
    have pa: "p - a < length t" using assms(1) a_le lt by simp
    have "q < n" using ge pa n_le by (simp add: q_def m_def)
    then have "rev t ! q \<in> set (takeWhile is_space (rev t))"
      unfolding n_def by (metis nth_mem takeWhile_nth)
    then have "is_space (rev t ! q)" by (auto dest: set_takeWhileD)
    moreover have "rev t ! q = t ! (p - a)"
      using pa by (simp add: q_def rev_nth)
    ultimately show False using tp assms(2) by simp
  qed
  have "strip s = take m (drop a s)" using st by (simp add: t_def)
  moreover have "p < a + m" using p_lt a_le by simp
  moreover have "a + m \<le> length s" using a_len lt by (simp add: m_def)
  ultimately show ?thesis using a_le by blast
qed

lemma window_end_gt:
  "0 < chunk_size self \<Longrightarrow> start < window_end self text start"
  by (simp add: window_end_def Let_def)

lemma next_start_le_end:
  "0 < chunk_size self \<Longrightarrow> 0 \<le> overlap self \<Longrightarrow>
   next_start self text start \<le> window_end self text start"
  using window_end_gt [of self start "text"] by (simp add: next_start_def)

lemma slice_strip_covers:
  assumes "0 \<le> start" and "start \<le> int i" and "i < length text" and "int i < e"
    and "\<not> is_space (text ! i)"
  shows "\<exists>j k. strip (py_slice text start e) = take (k - j) (drop j text) \<and>
           j \<le> i \<and> i < k \<and> k \<le> length text"
proof -
  define lo where "lo = nat start"
  define hi where "hi = min (length text) (nat e)"
  define s where "s = py_slice text start e"
  have s_eq: "s = take (hi - lo) (drop lo text)"
    using assms(1-4) by (simp add: s_def py_slice_def py_bound_def lo_def hi_def Let_def)
  have lo_le: "lo \<le> i" using assms(1,2) by (simp add: lo_def)
  have i_hi: "i < hi" using assms(1-4) by (simp add: hi_def)
  have len_s: "length s = hi - lo" using lo_le i_hi by (simp add: s_eq hi_def)
  have p_lt: "i - lo < length s" using lo_le i_hi len_s by simp
  have sp: "s ! (i - lo) = text ! i" using lo_le i_hi assms(3) by (simp add: s_eq hi_def)
  then have "\<not> is_space (s ! (i - lo))" using assms(5) by simp
  from strip_covers [OF p_lt this] obtain a m where
    st: "strip s = take m (drop a s)" and a_le: "a \<le> i - lo" and
    lt: "i - lo < a + m" and le: "a + m \<le> length s"
    by blast
  have "take m (drop a s) = take m (drop (lo + a) text)"
    using le len_s by (simp add: s_eq drop_take min_def add.commute)
  then have "strip s = take ((lo + a + m) - (lo + a)) (drop (lo + a) text)"
    using st by simp
  moreover have "lo + a \<le> i" using a_le lo_le by simp
  moreover have "i < lo + a + m" using lt lo_le by simp
  moreover have "lo + a + m \<le> length text" using le len_s lo_le i_hi unfolding hi_def by linarith
  ultimately show ?thesis unfolding s_def by blast
qed

lemma append_chunk_mono: "set chunks \<subseteq> set (append_chunk self text start chunks)"
  by (auto simp: append_chunk_def Let_def)

lemma chunk_loop_mono:
  "chunk_loop self text start chunks = Some r \<Longrightarrow> set chunks \<subseteq> set r"
proof (induction "nat (int (length text) - start)" arbitrary: start chunks rule: less_induct)
  case less
  show ?case
  proof (cases "start < int (length text) \<and> next_start self text start < int (length text)")
    case True
    then have m: "nat (int (length text) - next_start self text start) < nat (int (length text) - start)"
      using next_start_gt [of start self "text"] by linarith
    have "chunk_loop self text (next_start self text start) (append_chunk self text start chunks) = Some r"
      using less.prems True by (simp add: chunk_loop_step)
    from less.hyps [OF m this] show ?thesis
      using append_chunk_mono by blast
  next
    case False
    then show ?thesis
      using less.prems append_chunk_mono [of chunks self "text" start]
      by (cases "start < int (length text)") (auto simp: chunk_loop_last chunk_loop_stop)
  qed
qed

lemma append_chunk_covers:
  assumes "0 < chunk_size self" and "0 \<le> start" and "start \<le> int i" and "i < length text"
    and "int i < window_end self text start" and "\<not> is_space (text ! i)"
  shows "spans text i (append_chunk self text start chunks)"
proof -
  let ?c = "strip (py_slice text start (window_end self text start))"
  from slice_strip_covers [OF assms(2,3,4,5,6)] obtain j k where
    c: "?c = take (k - j) (drop j text)" and jk: "j \<le> i" "i < k" "k \<le> length text"
    by blast
  then have "?c \<noteq> []" by auto
  then have "?c \<in> set (append_chunk self text start chunks)"
    by (simp add: append_chunk_def Let_def)
  then show ?thesis unfolding spans_def using c jk by blast
qed

lemma spans_mono: "spans txt i cs \<Longrightarrow> set cs \<subseteq> set ds \<Longrightarrow> spans txt i ds"
  unfolding spans_def by blast

lemma chunk_loop_covers:
  assumes cs: "0 < chunk_size self" and ov: "0 \<le> overlap self"
  shows "0 \<le> start \<Longrightarrow> chunk_loop self text start chunks = Some r \<Longrightarrow>
    start \<le> int i \<Longrightarrow> i < length text \<Longrightarrow> \<not> is_space (text ! i) \<Longrightarrow> spans text i r"
proof (induction "nat (int (length text) - start)" arbitrary: start chunks rule: less_induct)
  case less
  have lt: "start < int (length text)" using less.prems by simp
  let ?ns = "next_start self text start"
  let ?ch = "append_chunk self text start chunks"
  show ?case
  proof (cases "?ns < int (length text)")
    case True
    have m: "nat (int (length text) - ?ns) < nat (int (length text) - start)"
      using next_start_gt [of start self "text"] True by linarith
    have loop: "chunk_loop self text ?ns ?ch = Some r"
      using less.prems(2) lt True by (simp add: chunk_loop_step)
    have ns0: "0 \<le> ?ns" using next_start_gt [of start self "text"] less.prems(1) by simp
    show ?thesis
    proof (cases "?ns \<le> int i")
      case True
      from less.hyps [OF m ns0 loop True less.prems(4,5)] show ?thesis .
    next
      case False
      then have "int i < window_end self text start"
        using next_start_le_end [OF cs ov, of "text" start] by simp
      from append_chunk_covers [OF cs less.prems(1,3,4) this less.prems(5)]
      have "spans text i ?ch" .
      then show ?thesis using chunk_loop_mono [OF loop] by (rule spans_mono)
    qed
  next
    case False
    then have r: "r = ?ch" using less.prems(2) lt by (simp add: chunk_loop_last)
    have "int i < window_end self text start"
      using next_start_le_end [OF cs ov, of "text" start] False less.prems(4) by simp
    from append_chunk_covers [OF cs less.prems(1,3,4) this less.prems(5)]
    show ?thesis unfolding r .
  qed
qed

lemma first_class_ws_end_none:
  "\<forall>c\<in>set s. \<not> P c \<Longrightarrow> first_class_ws_end P s = None"
  by (induction P s rule: first_class_ws_end.induct) auto

lemma paragraph_break_end_none:
  "10 \<notin> set s \<Longrightarrow> paragraph_break_end s = None"
  by (induction s) auto

lemma find_sentence_boundary_plain:
  assumes "\<forall>c\<in>set (py_slice text a b). \<not> sentence_ender c \<and> \<not> clause_sep c \<and> c \<noteq> 10"
  shows "find_sentence_boundary text a b = b"
proof -
  have "first_class_ws_end sentence_ender (py_slice text a b) = None"
    using assms by (intro first_class_ws_end_none) blast
  moreover have "first_class_ws_end clause_sep (py_slice text a b) = None"
    using assms by (intro first_class_ws_end_none) blast
  moreover have "paragraph_break_end (py_slice text a b) = None"
    using assms by (intro paragraph_break_end_none) blast
  ultimately show ?thesis
    by (simp add: find_sentence_boundary_def)
qed

text \<open>
  Claim C8. \<open>chunk_text\<close> returns on every text and for every chunk size and overlap:
  each iteration of the loop moves the window start strictly forward, whatever the
  boundary search answers, so the loop returns from every start and every chunk list.
\<close>

theorem chunk_text_terminates:
  "start < next_start self text start \<and>
   (\<exists>r. chunk_loop self text start chunks = Some r) \<and>
   (\<exists>r. chunk_text self text = Some r)"
  using next_start_gt [of start self "text"] chunk_loop_returns [of self "text"]
  by (simp add: chunk_text_def)

text \<open>
  Claim C7, as stated, fails on the empty text, which is shorter than the chunk size and
  for which \<open>chunk_text\<close> returns the empty list, not the list holding the empty text.
\<close>

theorem chunk_text_short_counterexample:
  "int (length ([] :: pystr)) < chunk_size default_chunker \<and>
   chunk_text default_chunker [] = Some [] \<and>
   chunk_text default_chunker [] \<noteq> Some [[]]"
  by (simp add: chunk_text_def default_chunker_def)

text \<open>
  Claim C7, amended: for every non-empty text shorter than the chunk size,
  \<open>chunk_text\<close> returns exactly the single-element list holding the text.
\<close>

theorem chunk_text_short:
  "text \<noteq> [] \<Longrightarrow> int (length text) < chunk_size self \<Longrightarrow> chunk_text self text = Some [text]"
  by (simp add: chunk_text_def)

theorem chunk_text_short_witness:
  "cps ''dharma'' \<noteq> [] \<and> int (length (cps ''dharma'')) < chunk_size default_chunker \<and>
   chunk_text default_chunker (cps ''dharma'') = Some [cps ''dharma'']"
proof -
  have 1: "cps ''dharma'' \<noteq> []" by (simp add: cps_def)
  have 2: "int (length (cps ''dharma'')) < chunk_size default_chunker"
    by (simp add: cps_def default_chunker_def)
  show ?thesis using 1 2 chunk_text_short [OF 1 2] by simp
qed

text \<open>
  Claim C1, as stated, fails: the chunks are stripped of leading and trailing white space
  and empty chunks are dropped. With the configured chunker (400 characters, overlap
  100), the text made of one space followed by 400 letters \<open>a\<close> yields two chunks of
  letters only, so its first character is in no chunk.
\<close>

theorem chunk_text_coverage_counterexample:
  "chunk_text default_chunker (32 # replicate 400 97) = Some [replicate 399 97, replicate 101 97] \<and>
   (32 # replicate 400 (97::nat)) ! 0 \<notin> set (concat [replicate 399 97, replicate 101 97])"
proof -
  let ?t = "32 # replicate 400 (97::nat)"
  have len: "int (length ?t) = 401" by simp
  have "py_slice ?t 300 400 = replicate 100 97"
    by (simp add: py_slice_def py_bound_def)
  then have "find_sentence_boundary ?t 300 400 = 400"
    by (intro find_sentence_boundary_plain) (simp add: sentence_ender_def clause_sep_def)
  then have w0: "window_end default_chunker ?t 0 = 400"
    by (simp add: window_end_def default_chunker_def)
  have w300: "window_end default_chunker ?t 300 = 700"
    by (simp add: window_end_def default_chunker_def)
  have n0: "next_start default_chunker ?t 0 = 300"
    by (simp add: next_start_def w0) (simp add: default_chunker_def)
  have n300: "next_start default_chunker ?t 300 = 600"
    by (simp add: next_start_def w300) (simp add: default_chunker_def)
  have "py_slice ?t 0 400 = 32 # replicate 399 97"
    by (simp add: py_slice_def py_bound_def)
  then have a0: "append_chunk default_chunker ?t 0 [] = [replicate 399 97]"
    by (simp add: append_chunk_def w0 strip_def is_space_def)
  have "py_slice ?t 300 700 = replicate 101 97"
    by (simp add: py_slice_def py_bound_def)
  then have a300: "append_chunk default_chunker ?t 300 [replicate 399 97] =
      [replicate 399 97, replicate 101 97]"
    by (simp add: append_chunk_def w300 strip_def is_space_def)
  have "chunk_loop default_chunker ?t 0 [] = chunk_loop default_chunker ?t 300 [replicate 399 97]"
    using chunk_loop_step [of 0 ?t default_chunker "[]"] by (simp add: n0 a0)
  also have "\<dots> = Some [replicate 399 97, replicate 101 97]"
    using chunk_loop_last [of 300 ?t default_chunker "[replicate 399 97]"] by (simp add: n300 a300)
  finally have "chunk_text default_chunker ?t = Some [replicate 399 97, replicate 101 97]"
    by (simp add: chunk_text_def default_chunker_def)
  then show ?thesis by simp
qed

text \<open>
  Claim C1, amended: with a positive chunk size and a non-negative overlap,
  \<open>chunk_text\<close> returns chunks, and every character of the text that is not white space
  lies inside at least one of them: for every position \<open>i\<close> holding such a character,
  some chunk is the piece \<open>text[j:k]\<close> of the text with \<open>j \<le> i < k\<close>.
\<close>

theorem chunk_text_keeps_non_whitespace:
  assumes "0 < chunk_size self" and "0 \<le> overlap self"
    and "i < length text" and "\<not> is_space (text ! i)"
  shows "\<exists>chunks. chunk_text self text = Some chunks \<and>
           (\<exists>c\<in>set chunks. \<exists>j k. c = take (k - j) (drop j text) \<and> j \<le> i \<and> i < k \<and>
              k \<le> length text)"
proof (cases "text = [] \<or> int (length text) < chunk_size self")
  case True
  then have "chunk_text self text = Some [text]" using assms(3) by (auto simp: chunk_text_def)
  moreover have "text = take (length text - 0) (drop 0 text)" by simp
  then have "\<exists>c\<in>set [text]. \<exists>j k. c = take (k - j) (drop j text) \<and> j \<le> i \<and> i < k \<and>
              k \<le> length text"
    using assms(3) by (intro bexI [of _ "text"] exI [of _ 0] exI [of _ "length text"]) auto
  ultimately show ?thesis by blast
next
  case False
  from chunk_loop_returns [of self "text" 0 "[]"] obtain chunks where
    run: "chunk_loop self text 0 [] = Some chunks" by blast
  from chunk_loop_covers [OF assms(1,2) _ run _ assms(3,4)]
  have "\<exists>c\<in>set chunks. \<exists>j k. c = take (k - j) (drop j text) \<and> j \<le> i \<and> i < k \<and>
              k \<le> length text"
    by (simp add: spans_def)
  moreover have "chunk_text self text = Some chunks"
    using False run by (simp add: chunk_text_def)
  ultimately show ?thesis by blast
qed

theorem chunk_text_keeps_non_whitespace_witness:
  "0 < chunk_size \<lparr>chunk_size = 4, overlap = 1\<rparr> \<and> 0 \<le> overlap \<lparr>chunk_size = 4, overlap = 1\<rparr> \<and>
   4 < length (cps ''ab. cdefgh'') \<and> \<not> is_space (cps ''ab. cdefgh'' ! 4) \<and>
   chunk_text \<lparr>chunk_size = 4, overlap = 1\<rparr> (cps ''ab. cdefgh'') =
     Some [cps ''ab.'', cps ''cde'', cps ''efgh'', cps ''h''] \<and>
   (\<exists>c\<in>set [cps ''ab.'', cps ''cde'', cps ''efgh'', cps ''h''].
      \<exists>j k. c = take (k - j) (drop j (cps ''ab. cdefgh'')) \<and> j \<le> 4 \<and> 4 < k \<and>
        k \<le> length (cps ''ab. cdefgh''))"
proof -
  let ?C = "\<lparr>chunk_size = 4, overlap = 1\<rparr>"
  let ?t = "[97, 98, 46, 32, 99, 100, 101, 102, 103, 104] :: pystr"
  have t: "cps ''ab. cdefgh'' = ?t" by (simp add: cps_def)
  have c: "cps ''ab.'' = [97, 98, 46]" "cps ''cde'' = [99, 100, 101]"
    "cps ''efgh'' = [101, 102, 103, 104]" "cps ''h'' = [104]"
    by (simp_all add: cps_def)
  have n0: "next_start ?C ?t 0 = 3" by (simp add: chunk_eval)
  have n3: "next_start ?C ?t 3 = 6" by (simp add: chunk_eval)
  have n6: "next_start ?C ?t 6 = 9" by (simp add: chunk_eval)
  have n9: "next_start ?C ?t 9 = 12" by (simp add: chunk_eval)
  have a0: "append_chunk ?C ?t 0 [] = [[97, 98, 46]]" by (simp add: chunk_eval)
  have a3: "append_chunk ?C ?t 3 [[97, 98, 46]] = [[97, 98, 46], [99, 100, 101]]"
    by (simp add: chunk_eval)
  have a6: "append_chunk ?C ?t 6 [[97, 98, 46], [99, 100, 101]] =
      [[97, 98, 46], [99, 100, 101], [101, 102, 103, 104]]"
    by (simp add: chunk_eval)
  have a9: "append_chunk ?C ?t 9 [[97, 98, 46], [99, 100, 101], [101, 102, 103, 104]] =
      [[97, 98, 46], [99, 100, 101], [101, 102, 103, 104], [104]]"
    by (simp add: chunk_eval)
  have "chunk_loop ?C ?t 0 [] = chunk_loop ?C ?t 3 [[97, 98, 46]]"
    using chunk_loop_step [of 0 ?t ?C "[]"] by (simp add: n0 a0)
  also have "\<dots> = chunk_loop ?C ?t 6 [[97, 98, 46], [99, 100, 101]]"
    using chunk_loop_step [of 3 ?t ?C "[[97, 98, 46]]"] by (simp add: n3 a3)
  also have "\<dots> = chunk_loop ?C ?t 9 [[97, 98, 46], [99, 100, 101], [101, 102, 103, 104]]"
    using chunk_loop_step [of 6 ?t ?C "[[97, 98, 46], [99, 100, 101]]"] by (simp add: n6 a6)
  also have "\<dots> = Some [[97, 98, 46], [99, 100, 101], [101, 102, 103, 104], [104]]"
    using chunk_loop_last [of 9 ?t ?C "[[97, 98, 46], [99, 100, 101], [101, 102, 103, 104]]"]
    by (simp add: n9 a9)
  finally have run: "chunk_text ?C (cps ''ab. cdefgh'') =
      Some [cps ''ab.'', cps ''cde'', cps ''efgh'', cps ''h'']"
    by (simp add: chunk_text_def t c)
  have 1: "0 < chunk_size ?C" and 2: "0 \<le> overlap ?C" by simp_all
  have 4: "4 < length (cps ''ab. cdefgh'')" by (simp add: t)
  have 5: "\<not> is_space (cps ''ab. cdefgh'' ! 4)" by (simp add: t is_space_def)
  from chunk_text_keeps_non_whitespace [OF 1 2 4 5] obtain chunks where
    "chunk_text ?C (cps ''ab. cdefgh'') = Some chunks"
    "\<exists>c\<in>set chunks. \<exists>j k. c = take (k - j) (drop j (cps ''ab. cdefgh'')) \<and> j \<le> 4 \<and> 4 < k \<and>
        k \<le> length (cps ''ab. cdefgh'')"
    by blast
  with run have "\<exists>c\<in>set [cps ''ab.'', cps ''cde'', cps ''efgh'', cps ''h''].
      \<exists>j k. c = take (k - j) (drop j (cps ''ab. cdefgh'')) \<and> j \<le> 4 \<and> 4 < k \<and>
        k \<le> length (cps ''ab. cdefgh'')"
    by simp
  with 1 2 run 4 5 show ?thesis by blast
qed

section \<open>Verification: embedder\<close>

lemma hex_value_some:
  "list_all (\<lambda>c. hex_digit c \<noteq> None) s \<Longrightarrow> \<exists>v. hex_value acc s = Some v"
  by (induction s arbitrary: acc) auto

lemma pairs_to_floats_hex:
  "list_all (\<lambda>c. hex_digit c \<noteq> None) s \<Longrightarrow>
   \<exists>vs. pairs_to_floats (hex_pairs s) = Inr vs \<and> (s \<noteq> [] \<longrightarrow> vs \<noteq> [])"
proof (induction s rule: hex_pairs.induct)
  case 1
  then show ?case by simp
next
  case (2 a)
  then obtain d where "hex_digit a = Some d" by auto
  then show ?case by (simp add: py_int16_def)
next
  case (3 a b cs)
  then obtain vs where vs: "pairs_to_floats (hex_pairs cs) = Inr vs" by auto
  from 3(2) obtain d where d: "hex_digit a = Some d" by auto
  from 3(2) have "list_all (\<lambda>c. hex_digit c \<noteq> None) (b # cs)" by simp
  from 3(2) obtain d' where d': "hex_digit b = Some d'" by auto
  show ?case by (simp add: py_int16_def d d' vs)
qed

lemma pad_embedding_returns:
  "embedding \<noteq> [] \<Longrightarrow> \<exists>r. pad_embedding embedding = Some r \<and> 1024 \<le> length r"
proof (induction "1024 - length embedding" arbitrary: embedding rule: less_induct)
  case less
  show ?case
  proof (cases "length embedding < 1024")
    case True
    let ?e = "embedding @ take (min (length embedding) (1024 - length embedding)) embedding"
    have pos: "0 < length embedding" using less.prems by simp
    have "length ?e = length embedding + min (length embedding) (1024 - length embedding)"
      by simp
    then have "1024 - length ?e < 1024 - length embedding" using True pos by linarith
    moreover have "?e \<noteq> []" using less.prems by simp
    ultimately obtain r where "pad_embedding ?e = Some r \<and> 1024 \<le> length r"
      using less.hyps by blast
    then show ?thesis using True by (subst pad_embedding.simps) simp
  next
    case False
    then show ?thesis by (subst pad_embedding.simps) simp
  qed
qed

lemma py_encode_ok: "\<not> list_ex is_surrogate s \<Longrightarrow> py_encode s = Inr (concat (map utf8 s))"
  by (simp add: py_encode_def)

lemma py_encode_ascii: "list_all (\<lambda>c. c < 128) s \<Longrightarrow> py_encode s = Inr s"
proof -
  assume a: "list_all (\<lambda>c. c < 128) s"
  then have "\<not> list_ex is_surrogate s"
    by (auto simp: list_all_iff list_ex_iff is_surrogate_def)
  moreover have "concat (map utf8 s) = s"
    using a by (induction s) (simp_all add: utf8_def)
  ultimately show ?thesis by (simp add: py_encode_def)
qed

lemma get_embedding_openrouter_shape:
  assumes "py_encode text = Inr bytes" and "md5_hexdigest bytes \<noteq> []"
    and "list_all (\<lambda>c. hex_digit c \<noteq> None) (md5_hexdigest bytes)"
  shows "\<exists>e. get_embedding_openrouter md5_hexdigest text = Some (Inr e) \<and> length e = 1024"
proof -
  from pairs_to_floats_hex [OF assms(3)] assms(2) obtain vs where
    vs: "pairs_to_floats (hex_pairs (md5_hexdigest bytes)) = Inr vs" "vs \<noteq> []"
    by blast
  from pad_embedding_returns [OF vs(2)] obtain r where
    r: "pad_embedding vs = Some r" "1024 \<le> length r" by blast
  then show ?thesis
    by (simp add: get_embedding_openrouter_def assms(1) vs)
qed

text \<open>
  Claim C9, as stated, fails on a text that UTF-8 cannot encode: for the one-character
  text holding the surrogate U+D800, \<open>text.encode()\<close> raises and \<open>get_embedding\<close> with
  \<open>use_api = False\<close> raises with it, returning no embedding.
\<close>

theorem get_embedding_surrogate_counterexample:
  "get_embedding (ext_md5 test_ext) (ext_mistral test_ext) [55296] False 3 =
     Some (Inl UnicodeEncodeError)"
  by (simp add: get_embedding_def get_embedding_openrouter_def py_encode_def is_surrogate_def)

text \<open>
  Claim C9, amended. For every text that holds no surrogate code point, \<open>get_embedding\<close>
  with \<open>use_api = False\<close> returns an embedding of length exactly 1024. The digest function
  is a parameter; the theorem asks of it only that the digest of the encoded text is a
  non-empty string of hexadecimal digits, as every MD5 digest is.
\<close>

theorem get_embedding_fallback_length:
  assumes "\<not> list_ex is_surrogate text"
    and "md5_hexdigest (concat (map utf8 text)) \<noteq> []"
    and "list_all (\<lambda>c. hex_digit c \<noteq> None) (md5_hexdigest (concat (map utf8 text)))"
  shows "\<exists>e. get_embedding md5_hexdigest api text False max_retries = Some (Inr e) \<and>
             length e = 1024"
  using get_embedding_openrouter_shape
    [where md5_hexdigest = md5_hexdigest, OF py_encode_ok [OF assms(1)] assms(2,3)]
  by (simp add: get_embedding_def)

theorem get_embedding_fallback_length_witness:
  "\<not> list_ex is_surrogate (cps ''abc'') \<and>
   (\<lambda>b. cps ''900150983cd24fb0d6963f7d28e17f72'') (concat (map utf8 (cps ''abc''))) \<noteq> [] \<and>
   list_all (\<lambda>c. hex_digit c \<noteq> None)
     ((\<lambda>b. cps ''900150983cd24fb0d6963f7d28e17f72'') (concat (map utf8 (cps ''abc'')))) \<and>
   (\<exists>e. get_embedding (\<lambda>b. cps ''900150983cd24fb0d6963f7d28e17f72'') (\<lambda>attempt. Failed)
           (cps ''abc'') False 3 = Some (Inr e) \<and> length e = 1024)"
proof -
  let ?h = "\<lambda>b::nat list. cps ''900150983cd24fb0d6963f7d28e17f72''"
  have 0: "\<not> list_ex is_surrogate (cps ''abc'')" by (simp add: cps_def is_surrogate_def)
  have 1: "?h (concat (map utf8 (cps ''abc''))) \<noteq> []" by (simp add: cps_def)
  have 2: "list_all (\<lambda>c. hex_digit c \<noteq> None) (?h (concat (map utf8 (cps ''abc''))))"
    by (simp add: cps_def hex_digit_def)
  from get_embedding_fallback_length [of "cps ''abc''" ?h, OF 0 1 2] 0 1 2
  show ?thesis by blast
qed

section \<open>Verification: vector stores\<close>

lemma sum_squares_nonneg: "0 \<le> sum_list (map (\<lambda>x. x * x) v)" for v :: "real list"
  by (induction v) auto

lemma sum_squares_zero_iff:
  "sum_list (map (\<lambda>x. x * x) v) = 0 \<longleftrightarrow> (\<forall>x\<in>set v. x = (0::real))"
proof (induction v)
  case Nil
  show ?case by simp
next
  case (Cons a v)
  have "a * a + sum_list (map (\<lambda>x. x * x) v) = 0 \<longleftrightarrow>
        a * a = 0 \<and> sum_list (map (\<lambda>x. x * x) v) = 0"
    by (rule add_nonneg_eq_0_iff) (simp_all add: sum_squares_nonneg)
  then show ?case using Cons by simp
qed

lemma np_norm_zero_iff: "np_norm v = 0 \<longleftrightarrow> (\<forall>x\<in>set v. x = 0)"
  by (simp add: np_norm_def sum_squares_zero_iff)

lemma normalize_zero_norm:
  "np_norm v = 0 \<Longrightarrow> normalize v = replicate (length v) NaN"
proof -
  assume z: "np_norm v = 0"
  then have "\<forall>x\<in>set v. x = 0" by (simp add: np_norm_zero_iff)
  then have "map (\<lambda>x. np_divide x 0) v = replicate (length v) NaN"
    by (induction v) (auto simp: np_divide_def)
  then show ?thesis by (simp add: normalize_def z)
qed

lemma normalize_finite:
  "np_norm v \<noteq> 0 \<Longrightarrow> normalize v = map Fin (map (\<lambda>x. x / np_norm v) v)"
  by (simp add: normalize_def np_divide_def)

lemma normalized_batch_rows:
  "set (map fst (normalized_batch docs)) =
     {normalize e | e doc. doc \<in> set docs \<and> doc_embedding doc = Some e}"
  by (induction docs) (auto split: option.splits)

lemma normalized_batch_lengths:
  "\<forall>x\<in>set docs. \<forall>v. doc_embedding x = Some v \<longrightarrow> length v = n \<Longrightarrow>
   list_all (\<lambda>row. length row = n) (map fst (normalized_batch docs))"
  by (induction docs) (auto simp: normalize_def split: option.splits)

lemma faiss_add_documents_ok:
  assumes "\<forall>x\<in>set documents. \<forall>v. doc_embedding x = Some v \<longrightarrow> length v = index_d (index self)"
  shows "FaissVectorStore_add_documents self documents =
     Inr (if map fst (normalized_batch documents) = [] then self
          else self\<lparr>index := (index self)\<lparr>index_xb := index_xb (index self) @ map fst (normalized_batch documents)\<rparr>,
                    metadata := metadata self @ map snd (normalized_batch documents)\<rparr>)"
proof (cases "map fst (normalized_batch documents) = []")
  case True
  then show ?thesis by (simp add: FaissVectorStore_add_documents_def)
next
  case False
  let ?rows = "map fst (normalized_batch documents)"
  have all: "list_all (\<lambda>row. length row = index_d (index self)) ?rows"
    using assms by (rule normalized_batch_lengths)
  have "hd ?rows \<in> set ?rows" using False by (rule hd_in_set)
  then have "length (hd ?rows) = index_d (index self)"
    using all unfolding list_all_iff by blast
  then have "np_array ?rows = Inr ?rows"
    using all by (simp add: np_array_def)
  then show ?thesis
    using False all by (simp add: FaissVectorStore_add_documents_def index_add_def Let_def)
qed

lemma faiss_add_documents_appends:
  assumes "FaissVectorStore_add_documents self documents = Inr self'"
  shows "\<exists>rows ms. index_xb (index self') = index_xb (index self) @ rows \<and>
           metadata self' = metadata self @ ms \<and> length rows = length ms"
proof (cases "map fst (normalized_batch documents) = []")
  case True
  then have "self' = self" using assms by (simp add: FaissVectorStore_add_documents_def)
  then show ?thesis by simp
next
  case False
  then have "self' = self\<lparr>index := (index self)\<lparr>index_xb := index_xb (index self) @ map fst (normalized_batch documents)\<rparr>,
                    metadata := metadata self @ map snd (normalized_batch documents)\<rparr>"
    using assms
    by (auto simp: FaissVectorStore_add_documents_def index_add_def np_array_def Let_def
             split: sum.splits if_splits)
  then show ?thesis by simp
qed


lemma batches_Nil: "batches n [] = []"
  by (subst batches.simps) simp

lemma batches_short:
  assumes "xs \<noteq> []" and "length xs \<le> n"
  shows "batches n xs = [xs]"
proof -
  have "0 < length xs" using assms(1) by simp
  then have "0 < n" using assms(2) by linarith
  then show ?thesis
    using assms by (subst batches.simps) (simp add: batches_Nil)
qed

lemma metadata_entry_doc_with: "metadata_entry (doc_with e t) = payload_with t"
  by (simp add: metadata_entry_def doc_with_def payload_with_def get_or_def)

lemma doc_with_sel:
  "doc_embedding (doc_with e t) = Some e" "doc_text (doc_with e t) = Some t"
  by (simp_all add: doc_with_def)

lemma payload_with_text: "(payload_with t)\<lparr>p_text := t\<rparr> = payload_with t"
  by (simp add: payload_with_def)

lemmas example_eval = doc_with_sel metadata_entry_doc_with payload_with_text

lemma foldl_fadd_zeros: "foldl fadd (Fin a) (replicate n (Fin 0)) = Fin a"
  by (induction n) simp_all


lemma collect_results_length:
  "int (length results) < limit \<Longrightarrow>
   int (length (collect_results md limit source_filter hits results)) \<le> limit"
  by (induction md limit source_filter hits results rule: collect_results.induct) auto

lemma faiss_search_length:
  "0 \<le> limit \<Longrightarrow>
   int (length (FaissVectorStore_search self query_embedding limit source_filter)) \<le> limit"
proof (cases "0 < limit")
  case True
  then show ?thesis
    using collect_results_length [of "[]" limit]
    by (auto simp: FaissVectorStore_search_def split: sum.splits)
next
  case False
  moreover assume "0 \<le> limit"
  ultimately show ?thesis
    by (auto simp: FaissVectorStore_search_def index_search_def split: sum.splits)
qed

lemma faiss_search_empty_index:
  "index_xb (index self) = [] \<Longrightarrow>
   FaissVectorStore_search self query_embedding limit source_filter = []"
  by (simp add: FaissVectorStore_search_def)

text \<open>
  Claim C10. The local store divides each embedding by its norm without a guard: when a
  document of the batch has an embedding of norm zero, and the embeddings have the
  dimension of the index, \<open>add_documents\<close> raises nothing and stores for it a row whose
  components are all \<open>NaN\<close>.
\<close>

theorem faiss_add_zero_norm:
  assumes "doc \<in> set documents" and "doc_embedding doc = Some e" and "np_norm e = 0"
    and "\<forall>x\<in>set documents. \<forall>v. doc_embedding x = Some v \<longrightarrow> length v = index_d (index self)"
  shows "\<exists>self'. FaissVectorStore_add_documents self documents = Inr self' \<and>
           normalize e = replicate (length e) NaN \<and>
           replicate (length e) NaN \<in> set (index_xb (index self'))"
proof -
  have n: "normalize e = replicate (length e) NaN"
    using assms(3) by (rule normalize_zero_norm)
  have "normalize e \<in> set (map fst (normalized_batch documents))"
    unfolding normalized_batch_rows using assms(1,2) by blast
  then have "replicate (length e) NaN \<in> set (map fst (normalized_batch documents))"
    by (simp add: n)
  moreover from this have "map fst (normalized_batch documents) \<noteq> []" by auto
  ultimately show ?thesis
    using faiss_add_documents_ok [OF assms(4)] n by simp
qed

theorem faiss_add_zero_norm_witness:
  "doc_with (replicate 1024 0) (cps ''om'') \<in> set [doc_with (replicate 1024 0) (cps ''om'')] \<and>
   doc_embedding (doc_with (replicate 1024 0) (cps ''om'')) = Some (replicate 1024 0) \<and>
   np_norm (replicate 1024 0) = 0 \<and>
   length (replicate 1024 (0::real)) = index_d (index (FaissVectorStore_init 1024)) \<and>
   (\<exists>self'. FaissVectorStore_add_documents (FaissVectorStore_init 1024)
              [doc_with (replicate 1024 0) (cps ''om'')] = Inr self' \<and>
           normalize (replicate 1024 0) = replicate (length (replicate 1024 (0::real))) NaN \<and>
           replicate (length (replicate 1024 (0::real))) NaN \<in> set (index_xb (index self')))"
proof -
  let ?doc = "doc_with (replicate 1024 0) (cps ''om'')"
  have 1: "?doc \<in> set [?doc]" by simp
  have 2: "doc_embedding ?doc = Some (replicate 1024 0)" by (simp add: doc_with_sel)
  have 3: "np_norm (replicate 1024 0) = 0" by (simp add: np_norm_zero_iff)
  have 4: "\<forall>x\<in>set [?doc]. \<forall>v. doc_embedding x = Some v \<longrightarrow>
      length v = index_d (index (FaissVectorStore_init 1024))"
    by (simp add: doc_with_sel FaissVectorStore_init_def)
  have 5: "length (replicate 1024 (0::real)) = index_d (index (FaissVectorStore_init 1024))"
    by (simp add: FaissVectorStore_init_def)
  from faiss_add_zero_norm [OF 1 2 3 4] 1 2 3 5 show ?thesis by blast
qed

text \<open>
  Claim C4 at a failing input: the local store divides every embedding by its norm and
  has no case for a norm of zero. \<open>add_documents\<close> of a document whose embedding is the
  zero vector of dimension 1024 stores a row of \<open>NaN\<close>, which is not a vector of unit
  norm.
\<close>

theorem faiss_add_stores_nan_row:
  "FaissVectorStore_add_documents (FaissVectorStore_init 1024)
       [doc_with (replicate 1024 0) (cps ''om'')] =
     Inr \<lparr>embedding_dim = 1024,
          index = \<lparr>index_d = 1024, index_xb = [replicate 1024 NaN]\<rparr>,
          metadata = [payload_with (cps ''om'')]\<rparr>"
proof -
  have "np_norm (replicate 1024 0) = 0" by (simp add: np_norm_zero_iff)
  then have nz: "normalize (replicate 1024 0) = replicate 1024 NaN"
    using normalize_zero_norm [of "replicate 1024 0"] by simp
  show ?thesis
    by (simp add: FaissVectorStore_add_documents_def example_eval nz np_array_def index_add_def
        FaissVectorStore_init_def)
qed


text \<open>
  Claim C5 at a failing input: the managed store numbers the points of every call from 0
  and upserts them, so a second call overwrites the entries of the first. After
  \<open>add_documents\<close> of one document, \<open>add_documents\<close> of another document leaves a collection
  that holds the second document only.
\<close>

theorem vector_store_add_overwrites:
  "VectorStore_add_documents \<lparr>is_available = True, collection = []\<rparr>
       [doc_with (1 # 0 # replicate 1022 0) (cps ''first'')] =
     (\<lparr>is_available = True,
       collection = [\<lparr>point_id = 0, point_vector = 1 # 0 # replicate 1022 0,
                      point_payload = payload_with (cps ''first'')\<rparr>]\<rparr>, None) \<and>
   VectorStore_add_documents
       \<lparr>is_available = True,
        collection = [\<lparr>point_id = 0, point_vector = 1 # 0 # replicate 1022 0,
                       point_payload = payload_with (cps ''first'')\<rparr>]\<rparr>
       [doc_with (3 # 4 # replicate 1022 0) (cps ''second'')] =
     (\<lparr>is_available = True,
       collection = [\<lparr>point_id = 0, point_vector = 3 # 4 # replicate 1022 0,
                      point_payload = payload_with (cps ''second'')\<rparr>]\<rparr>, None)"
proof -
  have b1: "build_points 0 [doc_with (1 # 0 # replicate 1022 0) (cps ''first'')] =
      Inr [\<lparr>point_id = 0, point_vector = 1 # 0 # replicate 1022 0,
            point_payload = payload_with (cps ''first'')\<rparr>]"
    by (simp add: example_eval)
  have b2: "build_points 0 [doc_with (3 # 4 # replicate 1022 0) (cps ''second'')] =
      Inr [\<lparr>point_id = 0, point_vector = 3 # 4 # replicate 1022 0,
            point_payload = payload_with (cps ''second'')\<rparr>]"
    by (simp add: example_eval)
  show ?thesis
    by (simp add: VectorStore_add_documents_def example_eval batches_short client_upsert_def)
qed

text \<open>
  Claim C2 at a failing input: the local store applies no similarity floor. On an index
  holding one unit vector, the search for an orthogonal query with limit 1 returns that
  entry with score 0, below the configured floor of 0.65.
\<close>

theorem faiss_search_ignores_threshold:
  "map score
     (FaissVectorStore_search
        \<lparr>embedding_dim = 1024,
         index = \<lparr>index_d = 1024, index_xb = [Fin 1 # Fin 0 # replicate 1022 (Fin 0)]\<rparr>,
         metadata = [payload_with (cps ''om'')]\<rparr>
        (0 # 1 # replicate 1022 0) 1 None) = [Fin 0] \<and>
   0 < SIMILARITY_THRESHOLD"
proof -
  have "sum_list (map (\<lambda>x. x * x) (0 # 1 # replicate 1022 (0::real))) = 1"
    by (simp add: sum_list_replicate)
  then have n: "np_norm (0 # 1 # replicate 1022 0) = 1"
    by (simp add: np_norm_def)
  have q: "normalize (0 # 1 # replicate 1022 0) = Fin 0 # Fin 1 # replicate 1022 (Fin 0)"
    by (simp add: normalize_def n np_divide_def)
  have ip: "inner_product (Fin 0 # Fin 1 # replicate 1022 (Fin 0))
        (Fin 1 # Fin 0 # replicate 1022 (Fin 0)) = Fin 0"
    by (simp add: inner_product_def zip_replicate foldl_fadd_zeros)
  have s: "index_search \<lparr>index_d = 1024, index_xb = [Fin 1 # Fin 0 # replicate 1022 (Fin 0)]\<rparr>
        (Fin 0 # Fin 1 # replicate 1022 (Fin 0)) 1 = Inr [(Fin 0, 0)]"
    by (simp add: index_search_def ip ranked_def)
  show ?thesis
    by (simp add: FaissVectorStore_search_def q s filtered_out_def make_result_def
        payload.defs SIMILARITY_THRESHOLD_def)
qed
section \<open>Verification: retrieval orchestrator\<close>

lemma any_in_member: "keyword \<in> set keywords \<Longrightarrow> py_in keyword s \<Longrightarrow> any_in keywords s"
  by (auto simp: any_in_def list_ex_iff)

lemma modern_keyword_rejected:
  "keyword \<in> set modern_keywords \<Longrightarrow> py_in keyword (lower question) \<Longrightarrow>
   \<not> is_hindu_text_related lower question"
  by (simp add: is_hindu_text_related_def Let_def any_in_member)

text \<open>
  Claim C6. A question whose lower-cased text contains one of the off-topic keywords
  gets the fixed off-topic response, with confidence 0.0, whatever the vector store holds,
  whatever the services answer and whatever domain keywords the question also contains.
\<close>

theorem off_topic_short_circuit:
  assumes "keyword \<in> set modern_keywords" and "py_in keyword (ext_lower ext question)"
  shows "search_and_answer ext vs question source_filter = Some off_topic_answer \<and>
         confidence off_topic_answer = Fin 0"
  using modern_keyword_rejected [of keyword "ext_lower ext" question, OF assms]
  by (simp add: search_and_answer_def off_topic_answer_def)

theorem off_topic_short_circuit_witness:
  "cps ''cricket'' \<in> set modern_keywords \<and>
   py_in (cps ''cricket'') (ext_lower test_ext (cps ''Did Krishna play cricket?'')) \<and>
   search_and_answer test_ext (Faiss (FaissVectorStore_init 1024))
       (cps ''Did Krishna play cricket?'') None = Some off_topic_answer \<and>
   confidence off_topic_answer = Fin 0"
proof -
  have 1: "cps ''cricket'' \<in> set modern_keywords"
    by (simp add: modern_keywords_def cps_def)
  have 2: "py_in (cps ''cricket'') (ext_lower test_ext (cps ''Did Krishna play cricket?''))"
    by (simp add: test_ext_def ascii_lower_def cps_def)
  from off_topic_short_circuit [OF 1 2] 1 2 show ?thesis by blast
qed

lemma foldl_fadd_Fin: "foldl fadd (Fin a) (map Fin rs) = Fin (a + sum_list rs)"
  by (induction rs arbitrary: a) (simp_all add: add.assoc)

lemma py_sum_Fin: "py_sum (map Fin rs) = Fin (sum_list rs)"
  by (simp add: py_sum_def foldl_fadd_Fin)

text \<open>
  When the relevance test passes, the embedder returns and the search has results with
  finite scores, the response carries the arithmetic mean of the first five scores (or
  fewer) as its confidence, and their number as \<open>context_used\<close>. The mean is taken in
  exact arithmetic.
\<close>

lemma search_and_answer_mean:
  assumes "is_hindu_text_related (ext_lower ext) question"
    and "get_embedding (ext_md5 ext) (ext_mistral ext)
           (normalize_query (ext_lower ext) question) False 3 = Some (Inr e)"
    and "vector_store_search ext vs e 20 source_filter = results" and "results \<noteq> []"
    and "map score (take 5 results) = map Fin rs"
  shows "\<exists>a. search_and_answer ext vs question source_filter =
           Some \<lparr>answer = a, confidence = Fin (sum_list rs / real (length rs)),
                 context_used = Some (length rs), error = None\<rparr>"
proof -
  have "length (map score (take 5 results)) = length (map Fin rs)" using assms(5) by simp
  then have l: "length (take 5 results) = length rs" by simp
  have "length (take 5 results) \<noteq> 0" using assms(4) by (cases results) simp_all
  then have nz: "length rs \<noteq> 0" unfolding l .
  have "py_truediv (py_sum (map score (take 5 results))) (length (take 5 results)) =
      Inr (Fin (sum_list rs / real (length rs)))"
    unfolding assms(5) l using nz by (simp add: py_truediv_def py_sum_Fin)
  then show ?thesis
    using assms(1,2,3,4) l
    by (simp add: search_and_answer_def Let_def del: length_take)
qed

lemma get_embedding_returns:
  assumes "\<forall>b. md5_hexdigest b \<noteq> [] \<and> list_all (\<lambda>c. hex_digit c \<noteq> None) (md5_hexdigest b)"
  shows "\<exists>a. get_embedding md5_hexdigest api text False max_retries = Some a"
proof (cases "py_encode text")
  case (Inl err)
  then show ?thesis by (simp add: get_embedding_def get_embedding_openrouter_def)
next
  case (Inr bytes)
  from assms have "md5_hexdigest bytes \<noteq> []"
    and "list_all (\<lambda>c. hex_digit c \<noteq> None) (md5_hexdigest bytes)"
    by blast+
  from get_embedding_openrouter_shape [where md5_hexdigest = md5_hexdigest, OF Inr this]
  show ?thesis by (auto simp: get_embedding_def)
qed

lemma search_and_answer_returns:
  assumes "\<forall>b. ext_md5 ext b \<noteq> [] \<and> list_all (\<lambda>c. hex_digit c \<noteq> None) (ext_md5 ext b)"
  shows "\<exists>r. search_and_answer ext vs question source_filter = Some r"
proof -
  from get_embedding_returns [OF assms] obtain a where
    "get_embedding (ext_md5 ext) (ext_mistral ext)
       (normalize_query (ext_lower ext) question) False 3 = Some a"
    by blast
  then show ?thesis
    by (auto simp: search_and_answer_def Let_def split: sum.splits)
qed

lemma gate_dharma: "is_hindu_text_related ascii_lower (cps ''What is dharma?'')"
  by (simp add: is_hindu_text_related_def any_in_def hindu_keywords_def modern_keywords_def
      ascii_lower_def cps_def)

lemma normalize_dharma:
  "normalize_query ascii_lower (cps ''What is dharma?'') = cps ''what is dharma?''"
  by (simp add: normalize_query_def ascii_lower_def strip_def is_space_def cps_def)

lemma digest_dharma:
  "\<exists>vs. pairs_to_floats (hex_pairs (cps ''e045766d908d019be70ca58c99332982'')) =
     Inr (224 / 255 # vs)"
  by (simp add: cps_def py_int16_def hex_digit_def)

lemma pad_embedding_prefix:
  "v \<noteq> [] \<Longrightarrow> \<exists>t. pad_embedding v = Some (v @ t) \<and> 1024 \<le> length (v @ t)"
proof (induction "1024 - length v" arbitrary: v rule: less_induct)
  case less
  show ?case
  proof (cases "length v < 1024")
    case True
    let ?u = "take (min (length v) (1024 - length v)) v"
    have pos: "0 < length v" using less.prems by simp
    have "length (v @ ?u) = length v + min (length v) (1024 - length v)" by simp
    then have "1024 - length (v @ ?u) < 1024 - length v" using True pos by linarith
    moreover have "v @ ?u \<noteq> []" using less.prems by simp
    ultimately obtain t where "pad_embedding (v @ ?u) = Some ((v @ ?u) @ t)"
      "1024 \<le> length ((v @ ?u) @ t)"
      using less.hyps by blast
    then have "pad_embedding v = Some (v @ (?u @ t)) \<and> 1024 \<le> length (v @ (?u @ t))"
      using True by (subst pad_embedding.simps) simp
    then show ?thesis by blast
  next
    case False
    then have "pad_embedding v = Some (v @ []) \<and> 1024 \<le> length (v @ [])"
      by (subst pad_embedding.simps) simp
    then show ?thesis by blast
  qed
qed

lemma embedding_dharma:
  "\<exists>e'. get_embedding (ext_md5 test_ext) (ext_mistral test_ext) (cps ''what is dharma?'') False 3 =
          Some (Inr (224 / 255 # e')) \<and> length e' = 1023"
proof -
  from digest_dharma obtain vs where
    vs: "pairs_to_floats (hex_pairs (cps ''e045766d908d019be70ca58c99332982'')) = Inr (224 / 255 # vs)"
    by blast
  have enc: "py_encode (cps ''what is dharma?'') = Inr (cps ''what is dharma?'')"
    by (rule py_encode_ascii) (simp add: cps_def)
  from pad_embedding_prefix [of "224 / 255 # vs"] obtain t where
    t: "pad_embedding (224 / 255 # vs) = Some ((224 / 255 # vs) @ t)"
       "1024 \<le> length ((224 / 255 # vs) @ t)"
    by blast
  have "get_embedding (ext_md5 test_ext) (ext_mistral test_ext) (cps ''what is dharma?'') False 3 =
      Some (Inr (224 / 255 # take 1023 (vs @ t)))"
    by (simp add: get_embedding_def get_embedding_openrouter_def test_ext_def vs t(1) enc)
  moreover have "length (take 1023 (vs @ t)) = 1023" using t(2) by simp
  ultimately show ?thesis by blast
qed

lemma np_norm_head: "\<bar>x\<bar> \<le> np_norm (x # xs)"
proof -
  have "x * x \<le> sum_list (map (\<lambda>y. y * y) (x # xs))"
    using sum_squares_nonneg [of xs] by simp
  then have "sqrt (x * x) \<le> np_norm (x # xs)"
    unfolding np_norm_def by (rule real_sqrt_le_mono)
  then show ?thesis by simp
qed

lemma foldl_fadd_zero_products:
  "foldl fadd (Fin c) (map2 fmul (map Fin xs) (replicate m (Fin 0))) = Fin c"
proof (induction xs arbitrary: m c)
  case Nil
  show ?case by simp
next
  case (Cons x xs)
  then show ?case by (cases m) simp_all
qed

lemma inner_product_head:
  "inner_product (map Fin (x # xs)) (Fin a # replicate m (Fin 0)) = Fin (x * a)"
  by (simp add: inner_product_def foldl_fadd_zero_products)

lemma single_row_search:
  assumes "length q = 1024"
  shows "FaissVectorStore_search (single_row_store row t) q 20 None =
           [make_result (payload_with t) (inner_product (normalize q) row)]"
  using assms
  by (simp add: FaissVectorStore_search_def single_row_store_def index_search_def ranked_def
      normalize_def filtered_out_def)

lemma dharma_scores:
  "\<exists>x n. 0 < x \<and> x \<le> n \<and>
     (\<forall>a. \<exists>e. get_embedding (ext_md5 test_ext) (ext_mistral test_ext)
               (normalize_query (ext_lower test_ext) (cps ''What is dharma?'')) False 3 = Some (Inr e) \<and>
            vector_store_search test_ext (Faiss (single_row_store (Fin a # replicate 1023 (Fin 0)) (cps ''om'')))
              e 20 None = [make_result (payload_with (cps ''om'')) (Fin (x / n * a))])"
proof -
  from embedding_dharma obtain e' where
    e: "get_embedding (ext_md5 test_ext) (ext_mistral test_ext) (cps ''what is dharma?'') False 3 =
          Some (Inr (224 / 255 # e'))" and l: "length e' = 1023"
    by blast
  let ?e = "224 / 255 # e'"
  let ?n = "np_norm ?e"
  have le: "224 / 255 \<le> ?n" using np_norm_head [of "224 / 255" e'] by simp
  then have nz: "?n \<noteq> 0" by auto
  have q: "normalize ?e = map Fin ((224 / 255) / ?n # map (\<lambda>x. x / ?n) e')"
    using normalize_finite [OF nz] by simp
  have "\<forall>a. \<exists>e. get_embedding (ext_md5 test_ext) (ext_mistral test_ext)
               (normalize_query (ext_lower test_ext) (cps ''What is dharma?'')) False 3 = Some (Inr e) \<and>
            vector_store_search test_ext (Faiss (single_row_store (Fin a # replicate 1023 (Fin 0)) (cps ''om'')))
              e 20 None = [make_result (payload_with (cps ''om'')) (Fin ((224 / 255) / ?n * a))]"
  proof
    fix a
    have n: "normalize_query (ext_lower test_ext) (cps ''What is dharma?'') = cps ''what is dharma?''"
      using normalize_dharma by (simp add: test_ext_def)
    have "vector_store_search test_ext (Faiss (single_row_store (Fin a # replicate 1023 (Fin 0)) (cps ''om'')))
              ?e 20 None = [make_result (payload_with (cps ''om'')) (Fin ((224 / 255) / ?n * a))]"
    proof -
      have len: "length ?e = 1024" using l by simp
      have s2: "inner_product (normalize ?e) (Fin a # replicate 1023 (Fin 0)) =
          Fin ((224 / 255) / ?n * a)"
        by (simp only: q inner_product_head)
      show ?thesis
        by (simp only: vector_store_search.simps single_row_search [OF len] s2)
    qed
    with e n show "\<exists>e. get_embedding (ext_md5 test_ext) (ext_mistral test_ext)
               (normalize_query (ext_lower test_ext) (cps ''What is dharma?'')) False 3 = Some (Inr e) \<and>
            vector_store_search test_ext (Faiss (single_row_store (Fin a # replicate 1023 (Fin 0)) (cps ''om'')))
              e 20 None = [make_result (payload_with (cps ''om'')) (Fin ((224 / 255) / ?n * a))]"
      by (simp only:) blast
  qed
  moreover have "(0::real) < 224 / 255" by simp
  ultimately show ?thesis using le by blast
qed

lemma gate_dharma_test: "is_hindu_text_related (ext_lower test_ext) (cps ''What is dharma?'')"
  using gate_dharma by (simp add: test_ext_def)

lemma search_and_answer_found:
  assumes "is_hindu_text_related (ext_lower ext) question"
    and "get_embedding (ext_md5 ext) (ext_mistral ext)
           (normalize_query (ext_lower ext) question) False 3 = Some (Inr e)"
    and "vector_store_search ext vs e 20 source_filter = [make_result m (Fin s)]"
  shows "\<exists>a. search_and_answer ext vs question source_filter =
           Some \<lparr>answer = a, confidence = Fin s, context_used = Some 1, error = None\<rparr>"
  using assms
  by (simp add: search_and_answer_def Let_def py_truediv_def py_sum_def make_result_def
      payload.defs)

lemma faiss_add_opposite_vector:
  "FaissVectorStore_add_documents (FaissVectorStore_init 1024)
       [doc_with (- 1 # replicate 1023 0) (cps ''om'')] =
     Inr (single_row_store (Fin (- 1) # replicate 1023 (Fin 0)) (cps ''om''))"
proof -
  have "sum_list (map (\<lambda>x. x * x) (- 1 # replicate 1023 (0::real))) = 1"
    by (simp add: sum_list_replicate)
  then have n: "np_norm (- 1 # replicate 1023 0) = 1"
    by (simp add: np_norm_def)
  have nz: "normalize (- 1 # replicate 1023 0) = Fin (- 1) # replicate 1023 (Fin 0)"
    by (simp add: normalize_def n np_divide_def)
  show ?thesis
    by (simp add: FaissVectorStore_add_documents_def example_eval nz np_array_def index_add_def
        FaissVectorStore_init_def single_row_store_def)
qed

text \<open>
  Claim C3 at a failing input: the confidence is negative. The local store holds one
  entry, added with the embedding \<open>(-1, 0, \<dots>, 0)\<close>, and applies no similarity floor; the
  search for the question \<open>What is dharma?\<close>, whose hash-based embedding has a positive
  first component, returns this entry with a negative score, and the confidence of the
  response is that score.
\<close>

theorem search_and_answer_negative_confidence:
  "FaissVectorStore_add_documents (FaissVectorStore_init 1024)
       [doc_with (- 1 # replicate 1023 0) (cps ''om'')] =
     Inr (single_row_store (Fin (- 1) # replicate 1023 (Fin 0)) (cps ''om'')) \<and>
   map_option (in_unit_interval \<circ> confidence)
     (search_and_answer test_ext
        (Faiss (single_row_store (Fin (- 1) # replicate 1023 (Fin 0)) (cps ''om'')))
        (cps ''What is dharma?'') None) = Some False"
proof -
  from dharma_scores obtain x n e where xn: "0 < x" "x \<le> n"
    and e: "get_embedding (ext_md5 test_ext) (ext_mistral test_ext)
               (normalize_query (ext_lower test_ext) (cps ''What is dharma?'')) False 3 = Some (Inr e)"
    and s: "vector_store_search test_ext
              (Faiss (single_row_store (Fin (- 1) # replicate 1023 (Fin 0)) (cps ''om'')))
              e 20 None = [make_result (payload_with (cps ''om'')) (Fin (x / n * (- 1)))]"
    by blast
  from search_and_answer_found [OF gate_dharma_test e s] obtain a where
    "search_and_answer test_ext
        (Faiss (single_row_store (Fin (- 1) # replicate 1023 (Fin 0)) (cps ''om'')))
        (cps ''What is dharma?'') None =
      Some \<lparr>answer = a, confidence = Fin (x / n * (- 1)), context_used = Some 1, error = None\<rparr>"
    by blast
  moreover have "0 < x / n" using xn by simp
  ultimately show ?thesis using faiss_add_opposite_vector by simp
qed

end
